theory Spec2Isabelle
  imports Complex_Main
begin

section \<open>Shared data model (exercises/base.py, server.py)\<close>

text \<open>
  Times, coordinates and confidences are Python floats; they are modelled as real numbers,
  so rounding, infinities and NaN are outside this development.
\<close>

datatype ExercisePhase = NOT_STARTED | SETUP | ACTIVE | COOLDOWN | COMPLETED

text \<open>The seventeen keypoint positions of \<open>server.KeypointIndex\<close>, in index order 0..16.\<close>

datatype KeypointIndex =
    NOSE | LEFT_EYE | RIGHT_EYE | LEFT_EAR | RIGHT_EAR
  | LEFT_SHOULDER | RIGHT_SHOULDER | LEFT_ELBOW | RIGHT_ELBOW
  | LEFT_WRIST | RIGHT_WRIST | LEFT_HIP | RIGHT_HIP
  | LEFT_KNEE | RIGHT_KNEE | LEFT_ANKLE | RIGHT_ANKLE

text \<open>
  A frame is a pair of arrays of shape (17, 2) and (17): one point and one confidence per
  keypoint position.
\<close>

type_synonym keypoints = "KeypointIndex \<Rightarrow> real \<times> real"
type_synonym confidences = "KeypointIndex \<Rightarrow> real"

datatype error = ValueError | ZeroDivisionError | TypeError

text \<open>Values of the heterogeneous \<open>exercise_specific_data\<close> dictionary.\<close>

datatype pyval = PNone | PBool bool | PInt int | PFloat real | PStr string

record ExerciseAnalysis =
  exercise_name :: string
  result_phase :: ExercisePhase
  form_score :: real
  feedback_messages :: "string list"
  result_rep_count :: int
  is_proper_position :: bool
  confidence :: real
  exercise_specific_data :: "(string \<times> pyval) list"

text \<open>
  The fields set by \<open>BaseExercise.__init__\<close>. The duration table is a dictionary that is
  iterated in insertion order, hence an association list.
\<close>

record BaseExercise =
  rep_count :: int
  start_time :: "real option"
  phase :: ExercisePhase
  confidence_threshold :: real
  phase_durations :: "(ExercisePhase \<times> real) list"

definition default_phase_durations :: "(ExercisePhase \<times> real) list" where
  "default_phase_durations = [(SETUP, 120), (ACTIVE, 120), (COOLDOWN, 60)]"

subsection \<open>Formatting of integers in f-strings\<close>

definition digit_char :: "nat \<Rightarrow> char" where
  "digit_char d = ''0123456789'' ! (d mod 10)"

function str_nat :: "nat \<Rightarrow> string" where
  "str_nat n = (if n < 10 then [digit_char n] else str_nat (n div 10) @ [digit_char (n mod 10)])"
  by pat_completeness auto
termination
  by (relation "measure id") auto

declare str_nat.simps [simp del]

definition str_int :: "int \<Rightarrow> string" where
  "str_int i = (if i < 0 then CHR ''-'' # str_nat (nat (- i)) else str_nat (nat i))"

subsection \<open>BaseExercise.update_phase\<close>

text \<open>
  The loop over \<open>phase_durations.items()\<close>: \<open>cumulative_time\<close> is the running sum, and the
  first phase whose cumulative boundary exceeds the elapsed time is returned.
\<close>

fun phase_loop :: "real \<Rightarrow> real \<Rightarrow> (ExercisePhase \<times> real) list \<Rightarrow> ExercisePhase option" where
  "phase_loop elapsed_time cumulative_time [] = None"
| "phase_loop elapsed_time cumulative_time ((ph, duration) # rest) =
     (let cumulative_time' = cumulative_time + duration in
      if elapsed_time < cumulative_time' then Some ph
      else phase_loop elapsed_time cumulative_time' rest)"

text \<open>
  Returns the updated object and the phase. A negative elapsed time returns early and
  leaves \<open>self.phase\<close> as it was.
\<close>

definition update_phase ::
  "'a BaseExercise_scheme \<Rightarrow> real \<Rightarrow> 'a BaseExercise_scheme \<times> ExercisePhase" where
  "update_phase self elapsed_time =
     (if elapsed_time < 0 then (self, NOT_STARTED)
      else case phase_loop elapsed_time 0 (phase_durations self) of
             Some ph \<Rightarrow> (self\<lparr>phase := ph\<rparr>, ph)
           | None \<Rightarrow> (self\<lparr>phase := COMPLETED\<rparr>, COMPLETED))"

subsection \<open>BaseExercise.check_confidence\<close>

fun check_confidence ::
  "'a BaseExercise_scheme \<Rightarrow> confidences \<Rightarrow> KeypointIndex list \<Rightarrow> bool" where
  "check_confidence self conf [] = True"
| "check_confidence self conf (idx # rest) =
     (if conf idx < confidence_threshold self then False
      else check_confidence self conf rest)"

section \<open>Shoulder squeezes (exercises/shoulder_squeezes.py)\<close>

record ShoulderSqueezesExercise = BaseExercise +
  baseline_distance :: "real option"
  in_squeeze :: bool
  last_distance :: "real option"

definition shoulder_init :: ShoulderSqueezesExercise where
  "shoulder_init =
     \<lparr> rep_count = 0, start_time = None, phase = NOT_STARTED,
       confidence_threshold = 6 / 10, phase_durations = default_phase_durations,
       baseline_distance = None, in_squeeze = False, last_distance = None \<rparr>"

definition shoulder_name :: string where
  "shoulder_name = ''Shoulder Squeezes''"

definition shoulder_required_keypoints :: "KeypointIndex list" where
  "shoulder_required_keypoints = [LEFT_SHOULDER, RIGHT_SHOULDER]"

text \<open>Truth value of \<open>self.baseline_distance\<close> in a condition: None and 0.0 are false.\<close>

definition truthy :: "real option \<Rightarrow> bool" where
  "truthy v = (case v of None \<Rightarrow> False | Some x \<Rightarrow> x \<noteq> 0)"

text \<open>
  The expression \<open>(self.baseline_distance - shoulder_distance) / self.baseline_distance * 100\<close>.
  Arithmetic on None raises TypeError and a zero denominator raises ZeroDivisionError.
\<close>

definition squeeze_percent_of :: "real option \<Rightarrow> real \<Rightarrow> error + real" where
  "squeeze_percent_of baseline shoulder_distance =
     (case baseline of
        None \<Rightarrow> Inl TypeError
      | Some b \<Rightarrow> if b = 0 then Inl ZeroDivisionError
                  else Inr ((b - shoulder_distance) / b * 100))"

text \<open>
  The branch on the phase in \<open>analyze\<close>: the updated object, the feedback messages and
  the form score (70 is the base score).
\<close>

definition shoulder_phase_logic ::
  "ShoulderSqueezesExercise \<Rightarrow> ExercisePhase \<Rightarrow> real \<Rightarrow> real \<Rightarrow>
   error + (ShoulderSqueezesExercise \<times> string list \<times> real)" where
  "shoulder_phase_logic self ph shoulder_distance elapsed_time =
     (if ph = SETUP then
        (if baseline_distance self = None \<or> elapsed_time < 10
         then Inr (self\<lparr>baseline_distance := Some shoulder_distance\<rparr>,
                   [''Stand tall with shoulders relaxed''], 70)
         else Inr (self, [''Get ready to squeeze your shoulder blades''], 70))
      else if ph = ACTIVE then
        (if truthy (baseline_distance self) then
           (case squeeze_percent_of (baseline_distance self) shoulder_distance of
              Inl e \<Rightarrow> Inl e
            | Inr squeeze_percent \<Rightarrow>
                if squeeze_percent > 20 then
                  (if \<not> in_squeeze self
                   then Inr (self\<lparr>in_squeeze := True\<rparr>,
                             [''Good squeeze! Hold for 2 seconds''], 90)
                   else Inr (self, [''Keep holding the squeeze''], 85))
                else
                  (if in_squeeze self
                   then let self' = self\<lparr>rep_count := rep_count self + 1, in_squeeze := False\<rparr>
                        in Inr (self', [''Rep '' @ str_int (rep_count self') @ '' complete!''], 70)
                   else Inr (self, [''Squeeze your shoulder blades together''], 60)))
         else Inr (self, [], 70))
      else if ph = COOLDOWN then
        Inr (self, [''Great work! You completed '' @ str_int (rep_count self)
                      @ '' shoulder squeezes''], 85)
      else Inr (self, [], 70))"

definition shoulder_distance_of :: "keypoints \<Rightarrow> real" where
  "shoulder_distance_of kp =
     (let left_shoulder = kp LEFT_SHOULDER; right_shoulder = kp RIGHT_SHOULDER
      in \<bar>fst left_shoulder - fst right_shoulder\<bar>)"

definition shoulder_analyze ::
  "ShoulderSqueezesExercise \<Rightarrow> keypoints \<Rightarrow> confidences \<Rightarrow> real \<Rightarrow>
   error + (ShoulderSqueezesExercise \<times> ExerciseAnalysis)" where
  "shoulder_analyze self kp conf elapsed_time =
     (let (self1, ph) = update_phase self elapsed_time in
      if \<not> check_confidence self1 conf shoulder_required_keypoints then
        Inr (self1,
             \<lparr> exercise_name = shoulder_name, result_phase = ph, form_score = 0,
               feedback_messages = [''Cannot see shoulders clearly''],
               result_rep_count = rep_count self1, is_proper_position = False,
               confidence = 0, exercise_specific_data = [] \<rparr>)
      else
        let shoulder_distance = shoulder_distance_of kp in
        case shoulder_phase_logic self1 ph shoulder_distance elapsed_time of
          Inl e \<Rightarrow> Inl e
        | Inr (self2, msgs, score) \<Rightarrow>
            Inr (self2,
                 \<lparr> exercise_name = shoulder_name, result_phase = ph, form_score = score,
                   feedback_messages = msgs,
                   result_rep_count = rep_count self2, is_proper_position = True,
                   confidence = min_list (map conf shoulder_required_keypoints) * 100,
                   exercise_specific_data =
                     [(''shoulder_distance'', PFloat shoulder_distance),
                      (''baseline_distance'',
                         (case baseline_distance self2 of None \<Rightarrow> PNone | Some b \<Rightarrow> PFloat b)),
                      (''in_squeeze'', PBool (in_squeeze self2))] \<rparr>))"

text \<open>One call of \<open>analyze\<close> per frame, in order, as the caller makes them.\<close>

fun shoulder_run ::
  "ShoulderSqueezesExercise \<Rightarrow> (keypoints \<times> confidences \<times> real) list \<Rightarrow>
   error + (ShoulderSqueezesExercise \<times> ExerciseAnalysis) list" where
  "shoulder_run self [] = Inr []"
| "shoulder_run self ((kp, conf, t) # frames) =
     (case shoulder_analyze self kp conf t of
        Inl e \<Rightarrow> Inl e
      | Inr (self', a) \<Rightarrow>
          (case shoulder_run self' frames of
             Inl e \<Rightarrow> Inl e
           | Inr rs \<Rightarrow> Inr ((self', a) # rs)))"

section \<open>Neck rotations (exercises/neck_rotations.py)\<close>

record NeckRotationsExercise = BaseExercise +
  shoulder_midpoint_x :: "real option"
  last_nose_x :: "real option"
  rotation_direction :: "string option"
  left_rotations :: int
  right_rotations :: int
  rotation_threshold :: real

definition neck_init :: NeckRotationsExercise where
  "neck_init =
     \<lparr> rep_count = 0, start_time = None, phase = NOT_STARTED,
       confidence_threshold = 6 / 10, phase_durations = default_phase_durations,
       shoulder_midpoint_x = None, last_nose_x = None, rotation_direction = None,
       left_rotations = 0, right_rotations = 0, rotation_threshold = 30 \<rparr>"

definition neck_name :: string where
  "neck_name = ''Neck Rotations''"

definition neck_required_keypoints :: "KeypointIndex list" where
  "neck_required_keypoints = [NOSE, LEFT_SHOULDER, RIGHT_SHOULDER]"

definition midpoint_x_of :: "keypoints \<Rightarrow> real" where
  "midpoint_x_of kp =
     (let left_shoulder = kp LEFT_SHOULDER; right_shoulder = kp RIGHT_SHOULDER
      in (fst left_shoulder + fst right_shoulder) / 2)"

definition nose_offset_of :: "keypoints \<Rightarrow> real" where
  "nose_offset_of kp = fst (kp NOSE) - midpoint_x_of kp"

definition neck_phase_logic ::
  "NeckRotationsExercise \<Rightarrow> ExercisePhase \<Rightarrow> real \<Rightarrow> real \<Rightarrow> real \<Rightarrow>
   NeckRotationsExercise \<times> string list \<times> real" where
  "neck_phase_logic self ph midpoint_x nose_offset elapsed_time =
     (if ph = SETUP then
        (self\<lparr>shoulder_midpoint_x := Some midpoint_x\<rparr>,
         [''Keep your shoulders still, only move your head''], 70)
      else if ph = ACTIVE then
        (if elapsed_time < 180 then
           (if nose_offset < - rotation_threshold self then
              (if rotation_direction self \<noteq> Some ''left'' then
                 let self' = self\<lparr>left_rotations := left_rotations self + 1,
                                  rotation_direction := Some ''left''\<rparr>
                 in (self', [''Left rotation '' @ str_int (left_rotations self')], 90)
               else (self, [''Good left rotation, now slowly return to center''], 85))
            else if nose_offset > rotation_threshold self then
              (self, [''Focus on rotating to your left for now''], 60)
            else
              (self\<lparr>rotation_direction := None\<rparr>, [''Now rotate your head to the left''], 70))
         else
           (if nose_offset > rotation_threshold self then
              (if rotation_direction self \<noteq> Some ''right'' then
                 let self' = self\<lparr>right_rotations := right_rotations self + 1,
                                  rotation_direction := Some ''right''\<rparr>
                 in (self', [''Right rotation '' @ str_int (right_rotations self')], 90)
               else (self, [''Good right rotation, now slowly return to center''], 85))
            else if nose_offset < - rotation_threshold self then
              (self, [''Focus on rotating to your right for now''], 60)
            else
              (self\<lparr>rotation_direction := None\<rparr>, [''Now rotate your head to the right''], 70)))
      else if ph = COOLDOWN then
        (self, [''Excellent! '' @ str_int (left_rotations self) @ '' left, ''
                  @ str_int (right_rotations self) @ '' right rotations''], 85)
      else (self, [], 70))"

definition neck_analyze ::
  "NeckRotationsExercise \<Rightarrow> keypoints \<Rightarrow> confidences \<Rightarrow> real \<Rightarrow>
   NeckRotationsExercise \<times> ExerciseAnalysis" where
  "neck_analyze self kp conf elapsed_time =
     (let (self1, ph) = update_phase self elapsed_time in
      if \<not> check_confidence self1 conf neck_required_keypoints then
        (self1,
         \<lparr> exercise_name = neck_name, result_phase = ph, form_score = 0,
           feedback_messages = [''Cannot see face and shoulders clearly''],
           result_rep_count = left_rotations self1 + right_rotations self1,
           is_proper_position = False, confidence = 0, exercise_specific_data = [] \<rparr>)
      else
        let midpoint_x = midpoint_x_of kp;
            nose_offset = nose_offset_of kp;
            (self2, msgs, score) = neck_phase_logic self1 ph midpoint_x nose_offset elapsed_time;
            self3 = self2\<lparr>rep_count := left_rotations self2 + right_rotations self2\<rparr>
        in (self3,
            \<lparr> exercise_name = neck_name, result_phase = ph, form_score = score,
              feedback_messages = msgs,
              result_rep_count = rep_count self3, is_proper_position = True,
              confidence = min_list (map conf neck_required_keypoints) * 100,
              exercise_specific_data =
                [(''nose_offset'', PFloat nose_offset),
                 (''left_rotations'', PInt (left_rotations self3)),
                 (''right_rotations'', PInt (right_rotations self3)),
                 (''rotation_direction'',
                    (case rotation_direction self3 of None \<Rightarrow> PNone | Some d \<Rightarrow> PStr d))] \<rparr>))"

fun neck_run ::
  "NeckRotationsExercise \<Rightarrow> (keypoints \<times> confidences \<times> real) list \<Rightarrow>
   (NeckRotationsExercise \<times> ExerciseAnalysis) list" where
  "neck_run self [] = []"
| "neck_run self ((kp, conf, t) # frames) =
     (let (self', a) = neck_analyze self kp conf t in (self', a) # neck_run self' frames)"

section \<open>Ankle circles (exercises/ankle_circles.py)\<close>

record AnkleCirclesExercise = BaseExercise +
  angle_history :: "real list"
  circle_count :: int
  last_quadrant :: "int option"
  quadrant_visits :: "int list"
  active_ankle :: string

definition ankle_init :: AnkleCirclesExercise where
  "ankle_init =
     \<lparr> rep_count = 0, start_time = None, phase = NOT_STARTED,
       confidence_threshold = 6 / 10, phase_durations = default_phase_durations,
       angle_history = [], circle_count = 0, last_quadrant = None,
       quadrant_visits = [], active_ankle = ''right'' \<rparr>"

definition ankle_name :: string where
  "ankle_name = ''Ankle Circles''"

definition ankle_required_keypoints :: "KeypointIndex list" where
  "ankle_required_keypoints = [LEFT_ANKLE, RIGHT_ANKLE, LEFT_KNEE, RIGHT_KNEE]"

text \<open>
  The library function \<open>math.atan2(y, x)\<close> on real numbers: the angle of the point
  \<open>(x, y)\<close> against the positive x axis, with \<open>atan2(0, 0) = 0\<close>.
\<close>

definition atan2 :: "real \<Rightarrow> real \<Rightarrow> real" where
  "atan2 y x =
     (if 0 < x then arctan (y / x)
      else if x < 0 \<and> 0 \<le> y then arctan (y / x) + pi
      else if x < 0 then arctan (y / x) - pi
      else if 0 < y then pi / 2
      else if y < 0 then - (pi / 2)
      else 0)"

text \<open>Python's \<open>x % m\<close> on floats for a positive \<open>m\<close>: the result takes the sign of \<open>m\<close>.\<close>

definition py_mod :: "real \<Rightarrow> real \<Rightarrow> real" where
  "py_mod x m = x - of_int \<lfloor>x / m\<rfloor> * m"

definition calculate_ankle_angle :: "real \<times> real \<Rightarrow> real \<times> real \<Rightarrow> real" where
  "calculate_ankle_angle ankle knee =
     (let dx = fst ankle - fst knee; dy = snd ankle - snd knee in atan2 dy dx)"

definition normalized_angle :: "real \<Rightarrow> real" where
  "normalized_angle angle = py_mod angle (2 * pi)"

definition get_quadrant :: "real \<Rightarrow> int" where
  "get_quadrant angle =
     (let normalized = normalized_angle angle in
      if normalized < pi / 2 then 1
      else if normalized < pi then 2
      else if normalized < 3 * pi / 2 then 3
      else 4)"

text \<open>
  \<open>_detect_circle_completion\<close>: the updated object and the returned flag. On a completed
  circle the method returns before \<open>last_quadrant\<close> is assigned.
\<close>

definition detect_circle_completion ::
  "AnkleCirclesExercise \<Rightarrow> int \<Rightarrow> AnkleCirclesExercise \<times> bool" where
  "detect_circle_completion self quadrant =
     (if last_quadrant self \<noteq> None \<and> Some quadrant \<noteq> last_quadrant self then
        (let self1 = self\<lparr>quadrant_visits := quadrant_visits self @ [quadrant]\<rparr> in
         if 4 \<le> length (quadrant_visits self1) then
           (let recent_quadrants =
                  drop (length (quadrant_visits self1) - 4) (quadrant_visits self1);
                unique_quadrants = set recent_quadrants
            in if card unique_quadrants = 4
               then (self1\<lparr>circle_count := circle_count self1 + 1, quadrant_visits := []\<rparr>, True)
               else (self1\<lparr>last_quadrant := Some quadrant\<rparr>, False))
         else (self1\<lparr>last_quadrant := Some quadrant\<rparr>, False))
      else (self\<lparr>last_quadrant := Some quadrant\<rparr>, False))"

definition quadrant_message :: "int \<Rightarrow> string" where
  "quadrant_message current_quadrant =
     (if current_quadrant = 1 then ''Moving forward and out''
      else if current_quadrant = 2 then ''Moving back and out''
      else if current_quadrant = 3 then ''Moving back and in''
      else ''Moving forward and in'')"

definition ankle_phase_logic ::
  "AnkleCirclesExercise \<Rightarrow> ExercisePhase \<Rightarrow> real \<Rightarrow> int \<Rightarrow> real \<Rightarrow>
   AnkleCirclesExercise \<times> string list \<times> real" where
  "ankle_phase_logic self ph current_angle current_quadrant elapsed_time =
     (if ph = SETUP then
        (self\<lparr>angle_history := angle_history self @ [current_angle]\<rparr>,
         [''Lift your '' @ active_ankle self @ '' foot slightly and prepare to make circles''],
         70)
      else if ph = ACTIVE then
        (let self1 = self\<lparr>angle_history := angle_history self @ [current_angle]\<rparr>;
             self2 = (if 100 < length (angle_history self1)
                      then self1\<lparr>angle_history := tl (angle_history self1)\<rparr> else self1);
             (self3, completed) = detect_circle_completion self2 current_quadrant;
             (msgs, score) =
               (if completed
                then ([''Circle '' @ str_int (circle_count self3) @ '' complete!''], 90)
                else ([quadrant_message current_quadrant], 75))
         in if 180 < elapsed_time \<and> active_ankle self3 = ''right''
            then (self3\<lparr>active_ankle := ''left'', circle_count := 0,
                        quadrant_visits := [], last_quadrant := None\<rparr>,
                  msgs @ [''Switch to left ankle circles''], score)
            else (self3, msgs, score))
      else if ph = COOLDOWN then
        (self, [''Great job! You completed '' @ str_int (circle_count self)
                  @ '' ankle circles''], 85)
      else (self, [], 70))"

definition ankle_analyze ::
  "AnkleCirclesExercise \<Rightarrow> keypoints \<Rightarrow> confidences \<Rightarrow> real \<Rightarrow>
   AnkleCirclesExercise \<times> ExerciseAnalysis" where
  "ankle_analyze self kp conf elapsed_time =
     (let (self1, ph) = update_phase self elapsed_time in
      if \<not> check_confidence self1 conf ankle_required_keypoints then
        (self1,
         \<lparr> exercise_name = ankle_name, result_phase = ph, form_score = 0,
           feedback_messages = [''Cannot see ankles and knees clearly''],
           result_rep_count = circle_count self1,
           is_proper_position = False, confidence = 0, exercise_specific_data = [] \<rparr>)
      else
        let (ankle, knee) =
              (if active_ankle self1 = ''right''
               then (kp RIGHT_ANKLE, kp RIGHT_KNEE)
               else (kp LEFT_ANKLE, kp LEFT_KNEE));
            current_angle = calculate_ankle_angle ankle knee;
            current_quadrant = get_quadrant current_angle;
            (self2, msgs, score) =
              ankle_phase_logic self1 ph current_angle current_quadrant elapsed_time;
            self3 = self2\<lparr>rep_count := circle_count self2\<rparr>
        in (self3,
            \<lparr> exercise_name = ankle_name, result_phase = ph, form_score = score,
              feedback_messages = msgs,
              result_rep_count = rep_count self3, is_proper_position = True,
              confidence = min_list (map conf ankle_required_keypoints) * 100,
              exercise_specific_data =
                [(''current_angle'', PFloat current_angle),
                 (''current_quadrant'', PInt current_quadrant),
                 (''active_ankle'', PStr (active_ankle self3)),
                 (''angle_history_length'', PInt (int (length (angle_history self3))))] \<rparr>))"

text \<open>Successive calls of \<open>_detect_circle_completion\<close>, one per quadrant sample.\<close>

fun detect_run :: "AnkleCirclesExercise \<Rightarrow> int list \<Rightarrow> AnkleCirclesExercise" where
  "detect_run self [] = self"
| "detect_run self (q # qs) = detect_run (fst (detect_circle_completion self q)) qs"

text \<open>One call of \<open>analyze\<close> per frame, in order; the object after the last call.\<close>

fun ankle_run ::
  "AnkleCirclesExercise \<Rightarrow> (keypoints \<times> confidences \<times> real) list \<Rightarrow> AnkleCirclesExercise" where
  "ankle_run self [] = self"
| "ankle_run self ((kp, conf, t) # frames) = ankle_run (fst (ankle_analyze self kp conf t)) frames"

section \<open>Exercise registry (exercises/__init__.py)\<close>

datatype detector =
    Shoulder ShoulderSqueezesExercise
  | Neck NeckRotationsExercise
  | Ankle AnkleCirclesExercise

definition get_exercise :: "string \<Rightarrow> error + detector" where
  "get_exercise exercise_type =
     (if exercise_type = ''shoulder_squeezes'' then Inr (Shoulder shoulder_init)
      else if exercise_type = ''neck_rotations'' then Inr (Neck neck_init)
      else if exercise_type = ''ankle_circles'' then Inr (Ankle ankle_init)
      else Inl ValueError)"

text \<open>The method \<open>analyze\<close> of whichever class the registry instantiated.\<close>

fun analyze ::
  "detector \<Rightarrow> keypoints \<Rightarrow> confidences \<Rightarrow> real \<Rightarrow> error + (detector \<times> ExerciseAnalysis)" where
  "analyze (Shoulder self) kp conf t =
     (case shoulder_analyze self kp conf t of
        Inl e \<Rightarrow> Inl e
      | Inr (self', a) \<Rightarrow> Inr (Shoulder self', a))"
| "analyze (Neck self) kp conf t =
     (let (self', a) = neck_analyze self kp conf t in Inr (Neck self', a))"
| "analyze (Ankle self) kp conf t =
     (let (self', a) = ankle_analyze self kp conf t in Inr (Ankle self', a))"

text \<open>The property \<open>required_keypoints\<close> and the observable state of each class.\<close>

fun required_keypoints :: "detector \<Rightarrow> KeypointIndex list" where
  "required_keypoints (Shoulder self) = shoulder_required_keypoints"
| "required_keypoints (Neck self) = neck_required_keypoints"
| "required_keypoints (Ankle self) = ankle_required_keypoints"

fun threshold_of :: "detector \<Rightarrow> real" where
  "threshold_of (Shoulder self) = confidence_threshold self"
| "threshold_of (Neck self) = confidence_threshold self"
| "threshold_of (Ankle self) = confidence_threshold self"

text \<open>
  The repetition counters of a detector: \<open>rep_count\<close> for all three, the two rotation
  counts of the neck detector and the circle count of the ankle detector.
\<close>

fun counters :: "detector \<Rightarrow> int list" where
  "counters (Shoulder self) = [rep_count self]"
| "counters (Neck self) = [rep_count self, left_rotations self, right_rotations self]"
| "counters (Ankle self) = [rep_count self, circle_count self]"

text \<open>
  The state that carries the edge detection of each detector: \<open>in_squeeze\<close>, the tracked
  \<open>rotation_direction\<close>, and for the ankle detector the ankle being tracked together
  with \<open>last_quadrant\<close>, against which \<open>_detect_circle_completion\<close> detects a quadrant
  change.
\<close>

fun hysteresis_flags :: "detector \<Rightarrow> pyval list" where
  "hysteresis_flags (Shoulder self) = [PBool (in_squeeze self)]"
| "hysteresis_flags (Neck self) =
     [case rotation_direction self of None \<Rightarrow> PNone | Some d \<Rightarrow> PStr d]"
| "hysteresis_flags (Ankle self) =
     [PStr (active_ankle self),
      case last_quadrant self of None \<Rightarrow> PNone | Some q \<Rightarrow> PInt q]"

section \<open>Sample frames\<close>

text \<open>
  Frames for concrete runs: the server reports a confidence of 0.8 for every keypoint of a
  detected pose and 0 for every keypoint when no pose is detected.
\<close>

definition detected_conf :: confidences where
  "detected_conf = (\<lambda>idx. 8 / 10)"

definition undetected_conf :: confidences where
  "undetected_conf = (\<lambda>idx. 0)"

text \<open>The left shoulder at \<open>(d, 0)\<close>, every other keypoint at the origin.\<close>

definition shoulders_apart :: "real \<Rightarrow> keypoints" where
  "shoulders_apart d = (\<lambda>idx. if idx = LEFT_SHOULDER then (d, 0) else (0, 0))"

text \<open>The nose at \<open>(x, 0)\<close>, every other keypoint at the origin.\<close>

definition nose_at :: "real \<Rightarrow> keypoints" where
  "nose_at x = (\<lambda>idx. if idx = NOSE then (x, 0) else (0, 0))"

text \<open>Both ankles at the point \<open>p\<close>, every other keypoint at the origin.\<close>

definition ankles_at :: "real \<times> real \<Rightarrow> keypoints" where
  "ankles_at p = (\<lambda>idx. if idx = LEFT_ANKLE \<or> idx = RIGHT_ANKLE then p else (0, 0))"

text \<open>
  The shoulder detector after a Setup frame with the shoulders 100 pixels apart: the
  baseline is 100 and no squeeze is in progress.
\<close>

definition shoulder_ready :: ShoulderSqueezesExercise where
  "shoulder_ready = shoulder_init\<lparr>phase := SETUP, baseline_distance := Some 100\<rparr>"

text \<open>
  An ankle detector with the transitions 4, 3, 1 logged and the last quadrant 1, as after
  samples in the quadrants 2, 4, 3, 1 (the angle history, which the completion check
  does not read, is left empty).
\<close>

definition ankle_three_logged :: AnkleCirclesExercise where
  "ankle_three_logged =
     ankle_init\<lparr>phase := ACTIVE, last_quadrant := Some 1, quadrant_visits := [4, 3, 1]\<rparr>"

text \<open>
  Five Active-phase frames with the ankle to the right of, above, to the left of, below
  and again to the right of the knee: the quadrants 1, 2, 3, 4, 1.
\<close>

definition one_circle_frames :: "(keypoints \<times> confidences \<times> real) list" where
  "one_circle_frames =
     [(ankles_at (1, 0), detected_conf, 130), (ankles_at (0, 1), detected_conf, 131),
      (ankles_at (- 1, 0), detected_conf, 132), (ankles_at (0, - 1), detected_conf, 133),
      (ankles_at (1, 0), detected_conf, 134)]"

text \<open>Three further frames in the quadrants 2, 3, 4.\<close>

definition three_quadrant_frames :: "(keypoints \<times> confidences \<times> real) list" where
  "three_quadrant_frames =
     [(ankles_at (0, 1), detected_conf, 135), (ankles_at (- 1, 0), detected_conf, 136),
      (ankles_at (0, - 1), detected_conf, 137)]"

section \<open>Facts about the phase clock and the confidence gate\<close>

lemma phase_loop_default:
  "phase_loop t 0 default_phase_durations =
     (if t < 120 then Some SETUP else if t < 240 then Some ACTIVE
      else if t < 300 then Some COOLDOWN else None)"
  by (simp add: default_phase_durations_def)

lemma update_phase_fields [simp]:
  "confidence_threshold (fst (update_phase s t)) = confidence_threshold s"
  "phase_durations (fst (update_phase s t)) = phase_durations s"
  "rep_count (fst (update_phase s t)) = rep_count s"
  "BaseExercise.more (fst (update_phase s t)) = BaseExercise.more s"
  by (simp_all add: update_phase_def split: option.splits)

lemma check_confidence_iff:
  "check_confidence s conf req = (\<forall>idx \<in> set req. \<not> conf idx < confidence_threshold s)"
  by (induction req) auto

lemma update_phase_state: "\<exists>p. fst (update_phase s t) = s\<lparr>phase := p\<rparr>"
proof (cases "t < 0")
  case True
  then have "fst (update_phase s t) = s\<lparr>phase := phase s\<rparr>" by (simp add: update_phase_def)
  then show ?thesis by blast
next
  case False
  then show ?thesis by (auto simp: update_phase_def split: option.splits)
qed

lemma check_confidence_phase [simp]:
  "check_confidence (s\<lparr>phase := p\<rparr>) conf req = check_confidence s conf req"
  by (induction req) auto

lemma update_phase_fst_of_snd:
  assumes "snd (update_phase s t) = ACTIVE"
  shows "fst (update_phase s t) = s\<lparr>phase := ACTIVE\<rparr>"
  using assms by (auto simp: update_phase_def split: if_splits option.splits)

lemma update_phase_active:
  assumes "snd (update_phase s t) = ACTIVE"
  shows "update_phase s t = (s\<lparr>phase := ACTIVE\<rparr>, ACTIVE)"
  using assms update_phase_fst_of_snd [OF assms] by (cases "update_phase s t") simp

lemma update_phase_snd_cong:
  "phase_durations s' = phase_durations s \<Longrightarrow> snd (update_phase s' t) = snd (update_phase s t)"
  by (simp add: update_phase_def split: option.splits)

lemma check_confidence_cong:
  "confidence_threshold s' = confidence_threshold s \<Longrightarrow>
   check_confidence s' conf req = check_confidence s conf req"
  by (induction req) auto

lemma update_phase_again:
  assumes "phase_durations x = phase_durations s"
  shows "\<exists>p. update_phase x t = (x\<lparr>phase := p\<rparr>, snd (update_phase s t))"
proof -
  obtain p where "fst (update_phase x t) = x\<lparr>phase := p\<rparr>" using update_phase_state by blast
  moreover have "snd (update_phase x t) = snd (update_phase s t)"
    using assms by (rule update_phase_snd_cong)
  ultimately show ?thesis by (metis prod.collapse)
qed

lemma active_default:
  assumes "phase_durations s = default_phase_durations" and "120 \<le> t" and "t < 240"
  shows "snd (update_phase s t) = ACTIVE"
  using assms by (simp add: update_phase_def phase_loop_default)

lemma detected_conf_passes:
  assumes "confidence_threshold s = 6 / 10"
  shows "check_confidence s detected_conf req"
  using assms by (induction req) (simp_all add: detected_conf_def)

section \<open>Facts about the shoulder-squeeze detector\<close>

lemma shoulder_phase_logic_total:
  "\<exists>s' msgs score. shoulder_phase_logic s ph d t = Inr (s', msgs, score) \<and> score \<in> {60, 70, 85, 90}"
  by (auto simp: shoulder_phase_logic_def truthy_def squeeze_percent_of_def Let_def split: option.splits)

lemma shoulder_form_score:
  "\<exists>s' a. shoulder_analyze s kp conf t = Inr (s', a) \<and> form_score a \<in> {0, 60, 70, 85, 90}"
proof -
  obtain s1 ph where up: "update_phase s t = (s1, ph)" by (cases "update_phase s t")
  obtain s' msgs score where pl: "shoulder_phase_logic s1 ph (shoulder_distance_of kp) t = Inr (s', msgs, score)"
     and sc: "score \<in> {60, 70, 85, 90}"
    using shoulder_phase_logic_total by blast
  show ?thesis using up pl sc
    by (auto simp: shoulder_analyze_def Let_def)
qed

lemma shoulder_reported:
  assumes "shoulder_analyze s0 kp conf t = Inr (s, a)"
  shows "result_rep_count a = rep_count s"
  using assms
  by (auto simp: shoulder_analyze_def Let_def case_prod_beta split: if_splits sum.splits)

lemma shoulder_degraded:
  assumes "\<not> check_confidence s conf shoulder_required_keypoints"
  shows "\<exists>p. shoulder_analyze s kp conf t =
     Inr (s\<lparr>phase := p\<rparr>,
          \<lparr> exercise_name = shoulder_name, result_phase = snd (update_phase s t), form_score = 0,
            feedback_messages = [''Cannot see shoulders clearly''],
            result_rep_count = rep_count s, is_proper_position = False,
            confidence = 0, exercise_specific_data = [] \<rparr>)"
proof -
  obtain p where p: "fst (update_phase s t) = s\<lparr>phase := p\<rparr>" using update_phase_state by blast
  show ?thesis using assms p
    by (auto simp: shoulder_analyze_def case_prod_beta)
qed

lemma shoulder_enter:
  assumes "snd (update_phase s t) = ACTIVE"
    and "check_confidence s conf shoulder_required_keypoints"
    and "baseline_distance s = Some b" and "b \<noteq> 0"
    and "20 < (b - shoulder_distance_of kp) / b * 100" and "\<not> in_squeeze s"
  shows "\<exists>a. shoulder_analyze s kp conf t = Inr (s\<lparr>phase := ACTIVE, in_squeeze := True\<rparr>, a)
           \<and> form_score a = 90 \<and> result_rep_count a = rep_count s"
  using assms(2-)
  by (simp add: shoulder_analyze_def update_phase_active [OF assms(1)] shoulder_phase_logic_def
        truthy_def squeeze_percent_of_def)

lemma shoulder_hold:
  assumes "snd (update_phase s t) = ACTIVE"
    and "check_confidence s conf shoulder_required_keypoints"
    and "baseline_distance s = Some b" and "b \<noteq> 0"
    and "20 < (b - shoulder_distance_of kp) / b * 100" and "in_squeeze s"
  shows "\<exists>a. shoulder_analyze s kp conf t = Inr (s\<lparr>phase := ACTIVE\<rparr>, a)
           \<and> form_score a = 85 \<and> result_rep_count a = rep_count s"
  using assms(2-)
  by (simp add: shoulder_analyze_def update_phase_active [OF assms(1)] shoulder_phase_logic_def
        truthy_def squeeze_percent_of_def)

lemma shoulder_release:
  assumes "snd (update_phase s t) = ACTIVE"
    and "check_confidence s conf shoulder_required_keypoints"
    and "baseline_distance s = Some b" and "b \<noteq> 0"
    and "(b - shoulder_distance_of kp) / b * 100 \<le> 20" and "in_squeeze s"
  shows "\<exists>a. shoulder_analyze s kp conf t =
               Inr (s\<lparr>phase := ACTIVE, rep_count := rep_count s + 1, in_squeeze := False\<rparr>, a)
           \<and> form_score a = 70 \<and> result_rep_count a = rep_count s + 1"
  using assms(2-)
  by (simp add: shoulder_analyze_def update_phase_active [OF assms(1)] shoulder_phase_logic_def
        truthy_def squeeze_percent_of_def Let_def)

lemma shoulder_idle:
  assumes "snd (update_phase s t) = ACTIVE"
    and "check_confidence s conf shoulder_required_keypoints"
    and "baseline_distance s = Some b" and "b \<noteq> 0"
    and "(b - shoulder_distance_of kp) / b * 100 \<le> 20" and "\<not> in_squeeze s"
  shows "\<exists>a. shoulder_analyze s kp conf t = Inr (s\<lparr>phase := ACTIVE\<rparr>, a)
           \<and> form_score a = 60 \<and> result_rep_count a = rep_count s"
  using assms(2-)
  by (simp add: shoulder_analyze_def update_phase_active [OF assms(1)] shoulder_phase_logic_def
        truthy_def squeeze_percent_of_def)

lemma shoulder_sequence:
  assumes base: "baseline_distance s = Some 100" and flag: "\<not> in_squeeze s"
    and act: "\<forall>t \<in> {t1, t2, t3, t4, t5}. snd (update_phase s t) = ACTIVE"
    and cf: "\<forall>c \<in> {c1, c2, c3, c4, c5}. check_confidence s c shoulder_required_keypoints"
    and d: "map shoulder_distance_of [k1, k2, k3, k4, k5] = [100, 100, 75, 75, 100]"
  shows "\<exists>rs. shoulder_run s [(k1, c1, t1), (k2, c2, t2), (k3, c3, t3), (k4, c4, t4), (k5, c5, t5)] = Inr rs
           \<and> map (in_squeeze \<circ> fst) rs = [False, False, True, True, False]
           \<and> map (rep_count \<circ> fst) rs =
               [rep_count s, rep_count s, rep_count s, rep_count s, rep_count s + 1]"
proof -
  define s1 where "s1 = s\<lparr>phase := ACTIVE\<rparr>"
  define s3 where "s3 = s\<lparr>phase := ACTIVE, in_squeeze := True\<rparr>"
  define s5 where "s5 = s3\<lparr>phase := ACTIVE, rep_count := rep_count s3 + 1, in_squeeze := False\<rparr>"
  have A: "snd (update_phase x t) = ACTIVE"
    if "phase_durations x = phase_durations s" "t \<in> {t1, t2, t3, t4, t5}" for x t
    using that act update_phase_snd_cong [of x s t] by auto
  have C: "check_confidence x c shoulder_required_keypoints"
    if "confidence_threshold x = confidence_threshold s" "c \<in> {c1, c2, c3, c4, c5}" for x c
    using that cf check_confidence_cong [of x s c] by auto
  obtain a1 where r1: "shoulder_analyze s k1 c1 t1 = Inr (s1, a1)"
    using shoulder_idle [of s t1 c1 100 k1] A [of s t1] C [of s c1] base flag d
    unfolding s1_def by auto
  obtain a2 where r2: "shoulder_analyze s1 k2 c2 t2 = Inr (s1, a2)"
    using shoulder_idle [of s1 t2 c2 100 k2] A [of s1 t2] C [of s1 c2] base flag d
    unfolding s1_def by auto
  obtain a3 where r3: "shoulder_analyze s1 k3 c3 t3 = Inr (s3, a3)"
    using shoulder_enter [of s1 t3 c3 100 k3] A [of s1 t3] C [of s1 c3] base flag d
    unfolding s1_def s3_def by auto
  obtain a4 where r4: "shoulder_analyze s3 k4 c4 t4 = Inr (s3, a4)"
    using shoulder_hold [of s3 t4 c4 100 k4] A [of s3 t4] C [of s3 c4] base flag d
    unfolding s3_def by auto
  obtain a5 where r5: "shoulder_analyze s3 k5 c5 t5 = Inr (s5, a5)"
    using shoulder_release [of s3 t5 c5 100 k5] A [of s3 t5] C [of s3 c5] base flag d
    unfolding s5_def s3_def by auto
  show ?thesis
    by (simp add: r1 r2 r3 r4 r5) (simp add: s1_def s3_def s5_def flag)
qed

lemma shoulder_skip_call:
  assumes act: "snd (update_phase s t) = ACTIVE"
    and base: "baseline_distance s = None \<or> baseline_distance s = Some 0"
  shows "\<exists>a. shoulder_analyze s kp conf t = Inr (s\<lparr>phase := ACTIVE\<rparr>, a)
           \<and> result_phase a = ACTIVE \<and> result_rep_count a = rep_count s
           \<and> (if check_confidence s conf shoulder_required_keypoints
               then form_score a = 70 \<and> feedback_messages a = [] \<and> is_proper_position a
                    \<and> exercise_specific_data a =
                        [(''shoulder_distance'', PFloat (shoulder_distance_of kp)),
                         (''baseline_distance'',
                            (case baseline_distance s of None \<Rightarrow> PNone | Some b \<Rightarrow> PFloat b)),
                         (''in_squeeze'', PBool (in_squeeze s))]
               else form_score a = 0 \<and> \<not> is_proper_position a)"
  using base
  by (auto simp: shoulder_analyze_def update_phase_active [OF act] shoulder_phase_logic_def
        truthy_def)

lemma shoulder_phase_logic_preserves:
  assumes "shoulder_phase_logic s ph d t = Inr (s1, m, sc)"
  shows "confidence_threshold s1 = confidence_threshold s \<and> phase_durations s1 = phase_durations s"
  using assms
  by (auto simp: shoulder_phase_logic_def Let_def split: if_splits sum.splits)

lemma shoulder_logic_idem:
  assumes "shoulder_phase_logic s ph d t = Inr (s1, m1, sc1)"
    and "rep_count x = rep_count s1" and "in_squeeze x = in_squeeze s1"
    and "baseline_distance x = baseline_distance s1"
  shows "\<exists>s2 m2 sc2. shoulder_phase_logic x ph d t = Inr (s2, m2, sc2)
           \<and> rep_count s2 = rep_count s1 \<and> in_squeeze s2 = in_squeeze s1"
  using assms
  by (auto simp: shoulder_phase_logic_def truthy_def squeeze_percent_of_def Let_def
           split: if_splits option.splits)

lemma shoulder_idem:
  "\<exists>s1 a1 s2 a2. shoulder_analyze s kp conf t = Inr (s1, a1)
       \<and> shoulder_analyze s1 kp conf t = Inr (s2, a2)
       \<and> rep_count s2 = rep_count s1 \<and> in_squeeze s2 = in_squeeze s1
       \<and> result_rep_count a2 = result_rep_count a1"
proof -
  define ph where "ph = snd (update_phase s t)"
  let ?ph = ph
  let ?d = "shoulder_distance_of kp"
  note again = update_phase_again [where s = s and t = t, folded ph_def]
  obtain p where u1: "update_phase s t = (s\<lparr>phase := p\<rparr>, ?ph)"
    using again [of s] by auto
  show ?thesis
  proof (cases "check_confidence s conf shoulder_required_keypoints")
    case False
    obtain p2 where u2: "update_phase (s\<lparr>phase := p\<rparr>) t = (s\<lparr>phase := p\<rparr>\<lparr>phase := p2\<rparr>, ?ph)"
      using again [of "s\<lparr>phase := p\<rparr>"] by auto
    show ?thesis using False
      by (simp add: shoulder_analyze_def u1 u2)
  next
    case True
    obtain s1 m1 sc1 where l1: "shoulder_phase_logic (s\<lparr>phase := p\<rparr>) ?ph ?d t = Inr (s1, m1, sc1)"
      using shoulder_phase_logic_total by blast
    have pres: "confidence_threshold s1 = confidence_threshold s" "phase_durations s1 = phase_durations s"
      using shoulder_phase_logic_preserves [OF l1] by simp_all
    obtain p2 where u2: "update_phase s1 t = (s1\<lparr>phase := p2\<rparr>, ?ph)"
      using again [of s1] pres by auto
    obtain s2 m2 sc2 where l2: "shoulder_phase_logic (s1\<lparr>phase := p2\<rparr>) ?ph ?d t = Inr (s2, m2, sc2)"
      and keep: "rep_count s2 = rep_count s1" "in_squeeze s2 = in_squeeze s1"
      using shoulder_logic_idem [OF l1, of "s1\<lparr>phase := p2\<rparr>"] by auto
    have c2: "check_confidence s1 conf shoulder_required_keypoints"
      using True check_confidence_cong [of s1 s conf] pres by simp
    show ?thesis using True c2 keep
      by (simp add: shoulder_analyze_def u1 u2 l1 l2)
  qed
qed

section \<open>Facts about the neck-rotation detector\<close>

lemma neck_phase_logic_score:
  "snd (snd (neck_phase_logic s ph m off t)) \<in> {60, 70, 85, 90}"
  by (simp add: neck_phase_logic_def Let_def)

lemma neck_form_score: "form_score (snd (neck_analyze s kp conf t)) \<in> {0, 60, 70, 85, 90}"
  using neck_phase_logic_score [of "fst (update_phase s t)" "snd (update_phase s t)" "midpoint_x_of kp" "nose_offset_of kp" t]
  by (simp add: neck_analyze_def Let_def case_prod_beta)

lemma neck_reported:
  assumes "neck_analyze s0 kp conf t = (s, a)"
  shows "result_rep_count a = left_rotations s + right_rotations s"
proof -
  obtain p where p: "fst (update_phase s0 t) = s0\<lparr>phase := p\<rparr>" using update_phase_state by blast
  show ?thesis using assms
    by (auto simp: neck_analyze_def Let_def case_prod_beta p split: if_splits)
qed

lemma neck_degraded:
  assumes "\<not> check_confidence s conf neck_required_keypoints"
  shows "\<exists>p. neck_analyze s kp conf t =
     (s\<lparr>phase := p\<rparr>,
          \<lparr> exercise_name = neck_name, result_phase = snd (update_phase s t), form_score = 0,
            feedback_messages = [''Cannot see face and shoulders clearly''],
            result_rep_count = left_rotations s + right_rotations s, is_proper_position = False,
            confidence = 0, exercise_specific_data = [] \<rparr>)"
proof -
  obtain p where p: "fst (update_phase s t) = s\<lparr>phase := p\<rparr>" using update_phase_state by blast
  show ?thesis using assms p
    by (auto simp: neck_analyze_def case_prod_beta)
qed

lemma neck_left_step:
  assumes act: "snd (update_phase s t) = ACTIVE" and early: "t < 180"
    and cf: "check_confidence s conf neck_required_keypoints"
  shows "fst (neck_analyze s kp conf t) =
           (if nose_offset_of kp < - rotation_threshold s then
              (if rotation_direction s \<noteq> Some ''left''
               then s\<lparr>phase := ACTIVE, left_rotations := left_rotations s + 1,
                       rotation_direction := Some ''left'',
                       rep_count := left_rotations s + 1 + right_rotations s\<rparr>
               else s\<lparr>phase := ACTIVE, rep_count := left_rotations s + right_rotations s\<rparr>)
            else if rotation_threshold s < nose_offset_of kp
            then s\<lparr>phase := ACTIVE, rep_count := left_rotations s + right_rotations s\<rparr>
            else s\<lparr>phase := ACTIVE, rotation_direction := None,
                    rep_count := left_rotations s + right_rotations s\<rparr>)"
  using early cf
  by (simp add: neck_analyze_def update_phase_active [OF act] neck_phase_logic_def Let_def)

lemma neck_run_Cons:
  "neck_run s ((kp, conf, t) # frames) =
     neck_analyze s kp conf t # neck_run (fst (neck_analyze s kp conf t)) frames"
  by (simp add: case_prod_beta)

lemma neck_sequence:
  assumes thr: "rotation_threshold s = 30"
    and act: "\<forall>t \<in> {t1, t2, t3, t4, t5}. snd (update_phase s t) = ACTIVE \<and> t < 180"
    and cf: "\<forall>c \<in> {c1, c2, c3, c4, c5}. check_confidence s c neck_required_keypoints"
    and offs: "map nose_offset_of [k1, k2, k3, k4, k5] = [0, - 40, - 40, 0, - 40]"
  shows "map (left_rotations \<circ> fst)
           (neck_run s [(k1, c1, t1), (k2, c2, t2), (k3, c3, t3), (k4, c4, t4), (k5, c5, t5)])
         = [left_rotations s, left_rotations s + 1, left_rotations s + 1,
            left_rotations s + 1, left_rotations s + 2]
       \<and> map (rotation_direction \<circ> fst)
           (neck_run s [(k1, c1, t1), (k2, c2, t2), (k3, c3, t3), (k4, c4, t4), (k5, c5, t5)])
         = [None, Some ''left'', Some ''left'', None, Some ''left'']"
proof -
  define s1 where "s1 = fst (neck_analyze s k1 c1 t1)"
  define s2 where "s2 = fst (neck_analyze s1 k2 c2 t2)"
  define s3 where "s3 = fst (neck_analyze s2 k3 c3 t3)"
  define s4 where "s4 = fst (neck_analyze s3 k4 c4 t4)"
  define s5 where "s5 = fst (neck_analyze s4 k5 c5 t5)"
  have A: "snd (update_phase x t) = ACTIVE"
    if "phase_durations x = phase_durations s" "t \<in> {t1, t2, t3, t4, t5}" for x t
    using that act update_phase_snd_cong [of x s t] by auto
  have C: "check_confidence x c neck_required_keypoints"
    if "confidence_threshold x = confidence_threshold s" "c \<in> {c1, c2, c3, c4, c5}" for x c
    using that cf check_confidence_cong [of x s c] by auto
  have e1: "s1 = s\<lparr>phase := ACTIVE, rotation_direction := None,
                    rep_count := left_rotations s + right_rotations s\<rparr>"
    unfolding s1_def using neck_left_step [of s t1 c1 k1] A [of s t1] C [of s c1] act thr offs
    by simp
  have e2: "s2 = s1\<lparr>phase := ACTIVE, left_rotations := left_rotations s1 + 1,
                     rotation_direction := Some ''left'',
                     rep_count := left_rotations s1 + 1 + right_rotations s1\<rparr>"
    unfolding s2_def using neck_left_step [of s1 t2 c2 k2] A [of s1 t2] C [of s1 c2] act thr offs
    by (simp add: e1)
  have e3: "s3 = s2\<lparr>phase := ACTIVE, rep_count := left_rotations s2 + right_rotations s2\<rparr>"
    unfolding s3_def using neck_left_step [of s2 t3 c3 k3] A [of s2 t3] C [of s2 c3] act thr offs
    by (simp add: e1 e2)
  have e4: "s4 = s3\<lparr>phase := ACTIVE, rotation_direction := None,
                     rep_count := left_rotations s3 + right_rotations s3\<rparr>"
    unfolding s4_def using neck_left_step [of s3 t4 c4 k4] A [of s3 t4] C [of s3 c4] act thr offs
    by (simp add: e1 e2 e3)
  have e5: "s5 = s4\<lparr>phase := ACTIVE, left_rotations := left_rotations s4 + 1,
                     rotation_direction := Some ''left'',
                     rep_count := left_rotations s4 + 1 + right_rotations s4\<rparr>"
    unfolding s5_def using neck_left_step [of s4 t5 c5 k5] A [of s4 t5] C [of s4 c5] act thr offs
    by (simp add: e1 e2 e3 e4)
  have run: "map fst (neck_run s [(k1, c1, t1), (k2, c2, t2), (k3, c3, t3), (k4, c4, t4), (k5, c5, t5)])
               = [s1, s2, s3, s4, s5]"
    by (simp only: neck_run_Cons neck_run.simps list.map s1_def s2_def s3_def s4_def s5_def)
  have l: "map left_rotations [s1, s2, s3, s4, s5] =
             [left_rotations s, left_rotations s + 1, left_rotations s + 1,
              left_rotations s + 1, left_rotations s + 2]"
    by (simp add: e1 e2 e3 e4 e5)
  have r: "map rotation_direction [s1, s2, s3, s4, s5] =
             [None, Some ''left'', Some ''left'', None, Some ''left'']"
    by (simp add: e1 e2 e3 e4 e5)
  show ?thesis
    using run l r by (metis map_map)
qed

lemma neck_phase_logic_preserves [simp]:
  "confidence_threshold (fst (neck_phase_logic s ph m off t)) = confidence_threshold s"
  "phase_durations (fst (neck_phase_logic s ph m off t)) = phase_durations s"
  "rotation_threshold (fst (neck_phase_logic s ph m off t)) = rotation_threshold s"
  by (simp_all add: neck_phase_logic_def Let_def)

lemma neck_logic_idem:
  assumes "left_rotations x = left_rotations (fst (neck_phase_logic s ph m off t))"
    and "right_rotations x = right_rotations (fst (neck_phase_logic s ph m off t))"
    and "rotation_direction x = rotation_direction (fst (neck_phase_logic s ph m off t))"
    and "rotation_threshold x = rotation_threshold s"
  shows "left_rotations (fst (neck_phase_logic x ph m off t)) = left_rotations x
       \<and> right_rotations (fst (neck_phase_logic x ph m off t)) = right_rotations x
       \<and> rotation_direction (fst (neck_phase_logic x ph m off t)) = rotation_direction x"
  using assms
  by (auto simp: neck_phase_logic_def Let_def split: if_splits)

lemma neck_analyze_fst:
  assumes "check_confidence s conf neck_required_keypoints"
    and "update_phase s t = (s1, ph)"
  shows "fst (neck_analyze s kp conf t) =
           (fst (neck_phase_logic s1 ph (midpoint_x_of kp) (nose_offset_of kp) t))
           \<lparr>rep_count :=
               left_rotations (fst (neck_phase_logic s1 ph (midpoint_x_of kp) (nose_offset_of kp) t))
             + right_rotations (fst (neck_phase_logic s1 ph (midpoint_x_of kp) (nose_offset_of kp) t))\<rparr>"
proof -
  obtain p where p: "fst (update_phase s t) = s\<lparr>phase := p\<rparr>" using update_phase_state by blast
  with assms(2) have "s1 = s\<lparr>phase := p\<rparr>" by simp
  then show ?thesis using assms
    by (simp add: neck_analyze_def Let_def case_prod_beta)
qed

lemma neck_idem:
  "left_rotations (fst (neck_analyze (fst (neck_analyze s kp conf t)) kp conf t))
     = left_rotations (fst (neck_analyze s kp conf t))
   \<and> right_rotations (fst (neck_analyze (fst (neck_analyze s kp conf t)) kp conf t))
     = right_rotations (fst (neck_analyze s kp conf t))
   \<and> rotation_direction (fst (neck_analyze (fst (neck_analyze s kp conf t)) kp conf t))
     = rotation_direction (fst (neck_analyze s kp conf t))
   \<and> rep_count (fst (neck_analyze (fst (neck_analyze s kp conf t)) kp conf t))
     = rep_count (fst (neck_analyze s kp conf t))"
proof -
  define ph where "ph = snd (update_phase s t)"
  let ?ph = ph
  let ?s1 = "fst (neck_analyze s kp conf t)"
  note again = update_phase_again [where s = s and t = t, folded ph_def]
  obtain p where u1: "update_phase s t = (s\<lparr>phase := p\<rparr>, ?ph)"
    using again [of s] by auto
  show ?thesis
  proof (cases "check_confidence s conf neck_required_keypoints")
    case False
    obtain p2 where u2: "update_phase (s\<lparr>phase := p\<rparr>) t = (s\<lparr>phase := p\<rparr>\<lparr>phase := p2\<rparr>, ?ph)"
      using again [of "s\<lparr>phase := p\<rparr>"] by auto
    show ?thesis using False
      by (simp add: neck_analyze_def u1 u2)
  next
    case True
    let ?l1 = "fst (neck_phase_logic (s\<lparr>phase := p\<rparr>) ?ph (midpoint_x_of kp) (nose_offset_of kp) t)"
    have e1: "?s1 = ?l1\<lparr>rep_count := left_rotations ?l1 + right_rotations ?l1\<rparr>"
      using neck_analyze_fst [OF True u1] .
    obtain p2 where u2: "update_phase ?s1 t = (?s1\<lparr>phase := p2\<rparr>, ?ph)"
      using again [of ?s1] by (auto simp: e1)
    have c2: "check_confidence ?s1 conf neck_required_keypoints"
      using True check_confidence_cong [of ?s1 s conf] by (simp add: e1)
    let ?x = "?s1\<lparr>phase := p2\<rparr>"
    let ?l2 = "fst (neck_phase_logic ?x ?ph (midpoint_x_of kp) (nose_offset_of kp) t)"
    have e2: "fst (neck_analyze ?s1 kp conf t) = ?l2\<lparr>rep_count := left_rotations ?l2 + right_rotations ?l2\<rparr>"
      using neck_analyze_fst [OF c2 u2] .
    have keep: "left_rotations ?l2 = left_rotations ?x \<and> right_rotations ?l2 = right_rotations ?x
                \<and> rotation_direction ?l2 = rotation_direction ?x"
      by (rule neck_logic_idem [of ?x "s\<lparr>phase := p\<rparr>"]) (simp_all add: e1)
    show ?thesis
      unfolding e2 using keep by (simp add: e1)
  qed
qed

section \<open>Facts about the ankle-circle detector\<close>

lemma ankle_phase_logic_score:
  "snd (snd (ankle_phase_logic s ph ang q t)) \<in> {70, 75, 85, 90}"
  by (simp add: ankle_phase_logic_def Let_def case_prod_beta)

lemma ankle_form_score: "form_score (snd (ankle_analyze s kp conf t)) \<in> {0, 70, 75, 85, 90}"
proof -
  have "\<And>s1 ph ang. snd (snd (ankle_phase_logic s1 ph ang (get_quadrant ang) t)) \<in> {0, 70, 75, 85, 90}"
    using ankle_phase_logic_score by fastforce
  then show ?thesis
    by (simp add: ankle_analyze_def Let_def case_prod_beta)
qed

lemma ankle_reported:
  assumes "ankle_analyze s0 kp conf t = (s, a)"
  shows "result_rep_count a = circle_count s"
  using assms
  by (auto simp: ankle_analyze_def Let_def case_prod_beta split: if_splits)

lemma ankle_degraded:
  assumes "\<not> check_confidence s conf ankle_required_keypoints"
  shows "\<exists>p. ankle_analyze s kp conf t =
     (s\<lparr>phase := p\<rparr>,
          \<lparr> exercise_name = ankle_name, result_phase = snd (update_phase s t), form_score = 0,
            feedback_messages = [''Cannot see ankles and knees clearly''],
            result_rep_count = circle_count s, is_proper_position = False,
            confidence = 0, exercise_specific_data = [] \<rparr>)"
proof -
  obtain p where p: "fst (update_phase s t) = s\<lparr>phase := p\<rparr>" using update_phase_state by blast
  show ?thesis using assms p
    by (auto simp: ankle_analyze_def case_prod_beta)
qed

lemma atan2_bounds: "- pi < atan2 y x \<and> atan2 y x \<le> pi"
proof -
  have b: "- (pi / 2) < arctan (y / x)" "arctan (y / x) < pi / 2"
    using arctan_bounded [of "y / x"] by simp_all
  have neg: "arctan (y / x) \<le> 0" if "x < 0" "0 \<le> y"
    using that by (simp add: divide_nonneg_neg arctan_le_zero_iff)
  have pos: "0 < arctan (y / x)" if "x < 0" "y < 0"
    using that by (simp add: divide_neg_neg zero_less_arctan_iff)
  show ?thesis
    using b neg pos pi_gt_zero by (auto simp: atan2_def)
qed

lemma py_mod_bounds:
  assumes "0 < m"
  shows "0 \<le> py_mod x m \<and> py_mod x m < m"
proof -
  have lo: "of_int \<lfloor>x / m\<rfloor> * m \<le> x" using assms by (rule floor_divide_lower)
  have hi: "x < (of_int \<lfloor>x / m\<rfloor> + 1) * m" using assms by (rule floor_divide_upper)
  show ?thesis using lo hi by (simp add: py_mod_def algebra_simps)
qed

lemma detect_complete:
  assumes lq: "last_quadrant s = Some l" and ne: "q \<noteq> l"
    and all4: "set (drop (length (quadrant_visits s @ [q]) - 4) (quadrant_visits s @ [q])) = {1, 2, 3, 4}"
  shows "detect_circle_completion s q =
           (s\<lparr>quadrant_visits := [], circle_count := circle_count s + 1\<rparr>, True)"
proof -
  let ?v = "quadrant_visits s @ [q]"
  have c: "card (set (drop (length ?v - 4) ?v)) = 4" unfolding all4 by simp
  have "card (set (drop (length ?v - 4) ?v)) \<le> length (drop (length ?v - 4) ?v)"
    by (rule card_length)
  then have len: "4 \<le> length ?v" using c by simp
  show ?thesis using lq ne c len
    by (simp add: detect_circle_completion_def Let_def)
qed

lemma detect_1234:
  assumes lq: "last_quadrant s = Some l" and ne: "l \<noteq> 1" and emp: "quadrant_visits s = []"
  shows "circle_count (detect_run s [1, 2, 3, 4]) = circle_count s + 1
         \<and> quadrant_visits (detect_run s [1, 2, 3, 4]) = []"
  using assms by (simp add: detect_circle_completion_def Let_def)

lemma detect_preserves [simp]:
  "active_ankle (fst (detect_circle_completion s q)) = active_ankle s"
  "angle_history (fst (detect_circle_completion s q)) = angle_history s"
  "rep_count (fst (detect_circle_completion s q)) = rep_count s"
  "confidence_threshold (fst (detect_circle_completion s q)) = confidence_threshold s"
  "phase_durations (fst (detect_circle_completion s q)) = phase_durations s"
  by (simp_all add: detect_circle_completion_def Let_def)

lemma detect_cases:
  "(snd (detect_circle_completion s q)
      \<and> quadrant_visits (fst (detect_circle_completion s q)) = []
      \<and> circle_count (fst (detect_circle_completion s q)) = circle_count s + 1)
   \<or> (\<not> snd (detect_circle_completion s q)
      \<and> last_quadrant (fst (detect_circle_completion s q)) = Some q
      \<and> circle_count (fst (detect_circle_completion s q)) = circle_count s)"
  by (simp add: detect_circle_completion_def Let_def)

lemma detect_no_count:
  assumes "last_quadrant x = None \<or> last_quadrant x = Some q \<or> quadrant_visits x = []"
  shows "circle_count (fst (detect_circle_completion x q)) = circle_count x"
  using assms by (auto simp: detect_circle_completion_def Let_def)

lemma ankle_phase_logic_preserves [simp]:
  "confidence_threshold (fst (ankle_phase_logic s ph ang q t)) = confidence_threshold s"
  "phase_durations (fst (ankle_phase_logic s ph ang q t)) = phase_durations s"
  by (simp_all add: ankle_phase_logic_def Let_def case_prod_beta)

lemma ankle_switch_step:
  assumes late: "180 < t" and right: "active_ankle s = ''right''"
  shows "active_ankle (fst (ankle_phase_logic s ACTIVE ang q t)) = ''left''
         \<and> circle_count (fst (ankle_phase_logic s ACTIVE ang q t)) = 0
         \<and> quadrant_visits (fst (ankle_phase_logic s ACTIVE ang q t)) = []
         \<and> last_quadrant (fst (ankle_phase_logic s ACTIVE ang q t)) = None"
  using assms by (simp add: ankle_phase_logic_def Let_def case_prod_beta)

lemma ankle_analyze_fst:
  assumes "check_confidence s conf ankle_required_keypoints"
  shows "\<exists>ang. fst (ankle_analyze s kp conf t) =
           (fst (ankle_phase_logic (fst (update_phase s t)) (snd (update_phase s t))
                   ang (get_quadrant ang) t))
           \<lparr>rep_count := circle_count (fst (ankle_phase_logic (fst (update_phase s t))
                   (snd (update_phase s t)) ang (get_quadrant ang) t))\<rparr>
         \<and> ang = calculate_ankle_angle
                   (kp (if active_ankle s = ''right'' then RIGHT_ANKLE else LEFT_ANKLE))
                   (kp (if active_ankle s = ''right'' then RIGHT_KNEE else LEFT_KNEE))"
proof -
  obtain p where p: "fst (update_phase s t) = s\<lparr>phase := p\<rparr>" using update_phase_state by blast
  show ?thesis using assms
    by (simp add: ankle_analyze_def Let_def case_prod_beta p)
qed

lemma ankle_switch_call:
  assumes act: "snd (update_phase s t) = ACTIVE" and late: "180 < t"
    and cf: "check_confidence s conf ankle_required_keypoints"
    and right: "active_ankle s = ''right''"
  shows "active_ankle (fst (ankle_analyze s kp conf t)) = ''left''
         \<and> circle_count (fst (ankle_analyze s kp conf t)) = 0
         \<and> quadrant_visits (fst (ankle_analyze s kp conf t)) = []
         \<and> last_quadrant (fst (ankle_analyze s kp conf t)) = None
         \<and> result_rep_count (snd (ankle_analyze s kp conf t)) = 0"
proof -
  obtain ang where e: "fst (ankle_analyze s kp conf t) =
           (fst (ankle_phase_logic (s\<lparr>phase := ACTIVE\<rparr>) ACTIVE ang (get_quadrant ang) t))
           \<lparr>rep_count := circle_count (fst (ankle_phase_logic (s\<lparr>phase := ACTIVE\<rparr>) ACTIVE
                   ang (get_quadrant ang) t))\<rparr>"
    using ankle_analyze_fst [OF cf, of kp t] by (auto simp: update_phase_active [OF act])
  have sw: "active_ankle (s\<lparr>phase := ACTIVE\<rparr>) = ''right''" using right by simp
  have rep: "result_rep_count (snd (ankle_analyze s kp conf t)) = circle_count (fst (ankle_analyze s kp conf t))"
    using ankle_reported [of s kp conf t] by (cases "ankle_analyze s kp conf t") simp
  show ?thesis
    using ankle_switch_step [OF late sw, of ang "get_quadrant ang"] rep by (simp add: e)
qed

lemma ankle_no_switch:
  assumes "snd (update_phase s t) \<noteq> ACTIVE \<or> \<not> check_confidence s conf ankle_required_keypoints"
  shows "active_ankle (fst (ankle_analyze s kp conf t)) = active_ankle s
         \<and> circle_count (fst (ankle_analyze s kp conf t)) = circle_count s"
proof -
  obtain p where p: "fst (update_phase s t) = s\<lparr>phase := p\<rparr>" using update_phase_state by blast
  show ?thesis using assms
    by (auto simp: ankle_analyze_def ankle_phase_logic_def Let_def case_prod_beta p)
qed

lemma ankle_logic_idem:
  assumes cc: "circle_count x = circle_count (fst (ankle_phase_logic s ph ang q t))"
    and lq: "last_quadrant x = last_quadrant (fst (ankle_phase_logic s ph ang q t))"
    and qv: "quadrant_visits x = quadrant_visits (fst (ankle_phase_logic s ph ang q t))"
    and aa: "active_ankle x = active_ankle (fst (ankle_phase_logic s ph ang q t))"
    and same: "active_ankle x = active_ankle s \<Longrightarrow> q' = q"
  shows "circle_count (fst (ankle_phase_logic x ph ang' q' t)) = circle_count x
       \<and> active_ankle (fst (ankle_phase_logic x ph ang' q' t)) = active_ankle x"
proof (cases "ph = ACTIVE")
  case False
  then show ?thesis by (simp add: ankle_phase_logic_def)
next
  case True
  define s2 where "s2 = (if 100 < length (angle_history s @ [ang])
                         then s\<lparr>angle_history := tl (angle_history s @ [ang])\<rparr>
                         else s\<lparr>angle_history := angle_history s @ [ang]\<rparr>)"
  define x2 where "x2 = (if 100 < length (angle_history x @ [ang'])
                         then x\<lparr>angle_history := tl (angle_history x @ [ang'])\<rparr>
                         else x\<lparr>angle_history := angle_history x @ [ang']\<rparr>)"
  have s2f: "active_ankle s2 = active_ankle s" "circle_count s2 = circle_count s"
    by (simp_all add: s2_def)
  have x2f: "active_ankle x2 = active_ankle x" "circle_count x2 = circle_count x"
    "last_quadrant x2 = last_quadrant x" "quadrant_visits x2 = quadrant_visits x"
    by (simp_all add: x2_def)
  have first: "fst (ankle_phase_logic s ph ang q t) =
                 (if 180 < t \<and> active_ankle s = ''right''
                  then (fst (detect_circle_completion s2 q))\<lparr>active_ankle := ''left'', circle_count := 0,
                          quadrant_visits := [], last_quadrant := None\<rparr>
                  else fst (detect_circle_completion s2 q))"
    using True by (simp add: ankle_phase_logic_def Let_def case_prod_beta s2_def)
  have second: "fst (ankle_phase_logic x ph ang' q' t) =
                 (if 180 < t \<and> active_ankle x = ''right''
                  then (fst (detect_circle_completion x2 q'))\<lparr>active_ankle := ''left'', circle_count := 0,
                          quadrant_visits := [], last_quadrant := None\<rparr>
                  else fst (detect_circle_completion x2 q'))"
    using True by (simp add: ankle_phase_logic_def Let_def case_prod_beta x2_def)
  show ?thesis
  proof (cases "180 < t \<and> active_ankle s = ''right''")
    case sw: True
    then have "active_ankle x = ''left''" "last_quadrant x = None"
      using aa lq by (simp_all add: first)
    then show ?thesis
      using detect_no_count [of x2 q'] by (simp add: second x2f)
  next
    case nsw: False
    then have f: "fst (ankle_phase_logic s ph ang q t) = fst (detect_circle_completion s2 q)"
      unfolding first by (simp only: if_False)
    have ax: "active_ankle x = active_ankle s" using aa by (simp add: f s2f)
    then have q': "q' = q" by (rule same)
    have "last_quadrant x = Some q \<or> quadrant_visits x = []"
      using detect_cases [of s2 q] lq qv by (auto simp: f)
    then have "circle_count (fst (detect_circle_completion x2 q')) = circle_count x2"
      using detect_no_count [of x2 q'] by (auto simp: x2f q')
    then show ?thesis
      using nsw ax by (simp add: second x2f)
  qed
qed

lemma ankle_idem:
  "circle_count (fst (ankle_analyze (fst (ankle_analyze s kp conf t)) kp conf t))
     = circle_count (fst (ankle_analyze s kp conf t))
   \<and> active_ankle (fst (ankle_analyze (fst (ankle_analyze s kp conf t)) kp conf t))
     = active_ankle (fst (ankle_analyze s kp conf t))
   \<and> rep_count (fst (ankle_analyze (fst (ankle_analyze s kp conf t)) kp conf t))
     = rep_count (fst (ankle_analyze s kp conf t))"
proof -
  define ph where "ph = snd (update_phase s t)"
  let ?s1 = "fst (ankle_analyze s kp conf t)"
  note again = update_phase_again [where s = s and t = t, folded ph_def]
  obtain p where u1: "update_phase s t = (s\<lparr>phase := p\<rparr>, ph)"
    using again [of s] by auto
  show ?thesis
  proof (cases "check_confidence s conf ankle_required_keypoints")
    case False
    obtain p2 where u2: "update_phase (s\<lparr>phase := p\<rparr>) t = (s\<lparr>phase := p\<rparr>\<lparr>phase := p2\<rparr>, ph)"
      using again [of "s\<lparr>phase := p\<rparr>"] by auto
    show ?thesis using False
      by (simp add: ankle_analyze_def u1 u2)
  next
    case True
    obtain ang where
      e1: "?s1 = (fst (ankle_phase_logic (s\<lparr>phase := p\<rparr>) ph ang (get_quadrant ang) t))
                 \<lparr>rep_count := circle_count (fst (ankle_phase_logic (s\<lparr>phase := p\<rparr>) ph ang (get_quadrant ang) t))\<rparr>"
      and a1: "ang = calculate_ankle_angle
                   (kp (if active_ankle s = ''right'' then RIGHT_ANKLE else LEFT_ANKLE))
                   (kp (if active_ankle s = ''right'' then RIGHT_KNEE else LEFT_KNEE))"
      using ankle_analyze_fst [OF True, of kp t] by (auto simp: u1)
    let ?l1 = "fst (ankle_phase_logic (s\<lparr>phase := p\<rparr>) ph ang (get_quadrant ang) t)"
    obtain p2 where u2: "update_phase ?s1 t = (?s1\<lparr>phase := p2\<rparr>, ph)"
      using again [of ?s1] by (auto simp: e1)
    have c2: "check_confidence ?s1 conf ankle_required_keypoints"
      using True check_confidence_cong [of ?s1 s conf] by (simp add: e1)
    let ?x = "?s1\<lparr>phase := p2\<rparr>"
    obtain ang' where
      e2: "fst (ankle_analyze ?s1 kp conf t) =
             (fst (ankle_phase_logic ?x ph ang' (get_quadrant ang') t))
             \<lparr>rep_count := circle_count (fst (ankle_phase_logic ?x ph ang' (get_quadrant ang') t))\<rparr>"
      and a2: "ang' = calculate_ankle_angle
                   (kp (if active_ankle ?s1 = ''right'' then RIGHT_ANKLE else LEFT_ANKLE))
                   (kp (if active_ankle ?s1 = ''right'' then RIGHT_KNEE else LEFT_KNEE))"
      using ankle_analyze_fst [OF c2, of kp t] by (auto simp: u2)
    have same: "get_quadrant ang' = get_quadrant ang" if "active_ankle ?x = active_ankle (s\<lparr>phase := p\<rparr>)"
      using that a1 a2 by simp
    have keep: "circle_count (fst (ankle_phase_logic ?x ph ang' (get_quadrant ang') t)) = circle_count ?x
              \<and> active_ankle (fst (ankle_phase_logic ?x ph ang' (get_quadrant ang') t)) = active_ankle ?x"
      by (rule ankle_logic_idem [of ?x "s\<lparr>phase := p\<rparr>" ph ang "get_quadrant ang" t])
         (simp_all add: e1 same)
    show ?thesis
      unfolding e2 using keep by (simp add: e1)
  qed
qed

lemma quadrant_right [simp]: "get_quadrant (calculate_ankle_angle (1, 0) (0, 0)) = 1"
  using pi_gt_zero
  by (simp add: get_quadrant_def normalized_angle_def py_mod_def calculate_ankle_angle_def
        atan2_def)

lemma quadrant_up [simp]: "get_quadrant (calculate_ankle_angle (0, 1) (0, 0)) = 2"
proof -
  have f: "\<lfloor>pi / 2 / (2 * pi)\<rfloor> = 0" by simp
  show ?thesis using pi_gt_zero
    by (simp add: get_quadrant_def normalized_angle_def py_mod_def calculate_ankle_angle_def
          atan2_def f)
qed

lemma quadrant_left [simp]: "get_quadrant (calculate_ankle_angle (- 1, 0) (0, 0)) = 3"
proof -
  have f: "\<lfloor>pi / (2 * pi)\<rfloor> = 0" by simp
  show ?thesis using pi_gt_zero
    by (simp add: get_quadrant_def normalized_angle_def py_mod_def calculate_ankle_angle_def
          atan2_def f)
qed

lemma quadrant_down [simp]: "get_quadrant (calculate_ankle_angle (0, - 1) (0, 0)) = 4"
proof -
  have "- (pi / 2) / (2 * pi) = - (1 / 4)" by simp
  then have f: "\<lfloor>- (pi / 2) / (2 * pi)\<rfloor> = - 1" by simp
  show ?thesis using pi_gt_zero
    by (simp add: get_quadrant_def normalized_angle_def py_mod_def calculate_ankle_angle_def
          atan2_def f)
qed

lemma ankle_active_step:
  assumes dur: "phase_durations s = default_phase_durations"
    and thr: "confidence_threshold s = 6 / 10"
    and right: "active_ankle s = ''right''"
    and t: "120 \<le> t" "t \<le> 180"
    and q: "get_quadrant (calculate_ankle_angle (kp RIGHT_ANKLE) (kp RIGHT_KNEE)) = q"
  shows "phase_durations (fst (ankle_analyze s kp detected_conf t)) = default_phase_durations
       \<and> confidence_threshold (fst (ankle_analyze s kp detected_conf t)) = 6 / 10
       \<and> active_ankle (fst (ankle_analyze s kp detected_conf t)) = ''right''
       \<and> last_quadrant (fst (ankle_analyze s kp detected_conf t))
           = last_quadrant (fst (detect_circle_completion s q))
       \<and> quadrant_visits (fst (ankle_analyze s kp detected_conf t))
           = quadrant_visits (fst (detect_circle_completion s q))
       \<and> circle_count (fst (ankle_analyze s kp detected_conf t))
           = circle_count (fst (detect_circle_completion s q))"
proof -
  have act: "snd (update_phase s t) = ACTIVE"
    using dur t by (intro active_default) simp_all
  have cf: "check_confidence s detected_conf ankle_required_keypoints"
    using thr by (rule detected_conf_passes)
  show ?thesis
    using cf right t dur thr
    by (simp add: ankle_analyze_def update_phase_active [OF act] ankle_phase_logic_def Let_def
          case_prod_beta q detect_circle_completion_def)
qed

section \<open>Phase clock: the default duration table\<close>

text \<open>
  C1. With the default duration table (Setup 120 s, Active 120 s, Cooldown 60 s),
  \<open>update_phase\<close> returns NotStarted for a negative elapsed time, Setup on [0, 120),
  Active on [120, 240), Cooldown on [240, 300) and Completed from 300 on; the upper
  boundaries are exclusive, so an elapsed time of exactly 120 belongs to Active.
\<close>

theorem update_phase_default_table:
  assumes "phase_durations self = default_phase_durations"
  shows "snd (update_phase self t) =
           (if t < 0 then NOT_STARTED
            else if t < 120 then SETUP
            else if t < 240 then ACTIVE
            else if t < 300 then COOLDOWN
            else COMPLETED)
         \<and> snd (update_phase self 120) = ACTIVE"
  using assms by (simp add: update_phase_def phase_loop_default)

theorem update_phase_default_table_witness:
  "phase_durations shoulder_init = default_phase_durations
   \<and> snd (update_phase shoulder_init (-1)) = NOT_STARTED
   \<and> snd (update_phase shoulder_init 0) = SETUP
   \<and> snd (update_phase shoulder_init 120) = ACTIVE
   \<and> snd (update_phase shoulder_init 240) = COOLDOWN
   \<and> snd (update_phase shoulder_init 300) = COMPLETED"
  using update_phase_default_table [of shoulder_init "-1"]
        update_phase_default_table [of shoulder_init 0]
        update_phase_default_table [of shoulder_init 240]
        update_phase_default_table [of shoulder_init 300]
  by (simp add: shoulder_init_def)

section \<open>Confidence gate: the degraded analysis\<close>

text \<open>
  C2. For every detector variant and every frame: when some required keypoint has a
  confidence below the threshold 0.6, \<open>analyze\<close> returns an analysis with form score 0,
  confidence 0, \<open>is_proper_position\<close> false and one explanatory message, and its
  \<open>rep_count\<close> is the one the previous call reported; no counter and no flag of the
  detector changes.
\<close>

theorem low_confidence_degraded:
  assumes prev: "analyze d0 kp0 conf0 t0 = Inr (d, a0)"
    and thr: "threshold_of d = 6 / 10"
    and low: "\<exists>idx \<in> set (required_keypoints d). conf idx < 6 / 10"
  shows "\<exists>d' a. analyze d kp conf t = Inr (d', a)
           \<and> form_score a = 0 \<and> confidence a = 0 \<and> \<not> is_proper_position a
           \<and> feedback_messages a \<in> {[''Cannot see shoulders clearly''],
                                       [''Cannot see face and shoulders clearly''],
                                       [''Cannot see ankles and knees clearly'']}
           \<and> result_rep_count a = result_rep_count a0
           \<and> counters d' = counters d
           \<and> hysteresis_flags d' = hysteresis_flags d"
proof -
  have low': "\<exists>idx \<in> set (required_keypoints d). conf idx < threshold_of d"
    unfolding thr by (rule low)
  show ?thesis
  proof (cases d)
    case (Shoulder s)
    from prev Shoulder obtain s0 where d0: "d0 = Shoulder s0"
      by (cases d0) (auto split: sum.splits prod.splits)
    from prev Shoulder d0 have "shoulder_analyze s0 kp0 conf0 t0 = Inr (s, a0)"
      by (auto split: sum.splits)
    then have rep: "result_rep_count a0 = rep_count s" by (rule shoulder_reported)
    from low' Shoulder have "\<not> check_confidence s conf shoulder_required_keypoints"
      by (auto simp: check_confidence_iff)
    from shoulder_degraded [OF this, of kp t] obtain p where
      "shoulder_analyze s kp conf t =
       Inr (s\<lparr>phase := p\<rparr>,
            \<lparr> exercise_name = shoulder_name, result_phase = snd (update_phase s t),
              form_score = 0, feedback_messages = [''Cannot see shoulders clearly''],
              result_rep_count = rep_count s, is_proper_position = False,
              confidence = 0, exercise_specific_data = [] \<rparr>)" by blast
    with Shoulder rep show ?thesis by simp
  next
    case (Neck s)
    from prev Neck obtain s0 where d0: "d0 = Neck s0"
      by (cases d0) (auto split: sum.splits prod.splits)
    from prev Neck d0 have "neck_analyze s0 kp0 conf0 t0 = (s, a0)"
      by (auto split: prod.splits)
    then have rep: "result_rep_count a0 = left_rotations s + right_rotations s"
      by (rule neck_reported)
    from low' Neck have "\<not> check_confidence s conf neck_required_keypoints"
      by (auto simp: check_confidence_iff)
    from neck_degraded [OF this, of kp t] obtain p where
      "neck_analyze s kp conf t =
       (s\<lparr>phase := p\<rparr>,
        \<lparr> exercise_name = neck_name, result_phase = snd (update_phase s t),
          form_score = 0, feedback_messages = [''Cannot see face and shoulders clearly''],
          result_rep_count = left_rotations s + right_rotations s,
          is_proper_position = False, confidence = 0, exercise_specific_data = [] \<rparr>)"
      by blast
    with Neck rep show ?thesis by simp
  next
    case (Ankle s)
    from prev Ankle obtain s0 where d0: "d0 = Ankle s0"
      by (cases d0) (auto split: sum.splits prod.splits)
    from prev Ankle d0 have "ankle_analyze s0 kp0 conf0 t0 = (s, a0)"
      by (auto split: prod.splits)
    then have rep: "result_rep_count a0 = circle_count s" by (rule ankle_reported)
    from low' Ankle have "\<not> check_confidence s conf ankle_required_keypoints"
      by (auto simp: check_confidence_iff)
    from ankle_degraded [OF this, of kp t] obtain p where
      "ankle_analyze s kp conf t =
       (s\<lparr>phase := p\<rparr>,
        \<lparr> exercise_name = ankle_name, result_phase = snd (update_phase s t),
          form_score = 0, feedback_messages = [''Cannot see ankles and knees clearly''],
          result_rep_count = circle_count s, is_proper_position = False,
          confidence = 0, exercise_specific_data = [] \<rparr>)" by blast
    with Ankle rep show ?thesis by simp
  qed
qed

text \<open>
  A run of C2: the shoulder detector sees the shoulders 75 pixels apart in the Active
  phase, then loses the pose; the degraded analysis repeats the reported count.
\<close>

theorem low_confidence_degraded_witness:
  "\<exists>a0. analyze (Shoulder shoulder_ready) (shoulders_apart 75) detected_conf 130
           = Inr (Shoulder (shoulder_ready\<lparr>phase := ACTIVE, in_squeeze := True\<rparr>), a0)
        \<and> threshold_of (Shoulder (shoulder_ready\<lparr>phase := ACTIVE, in_squeeze := True\<rparr>)) = 6 / 10
        \<and> (\<exists>idx \<in> set (required_keypoints
                            (Shoulder (shoulder_ready\<lparr>phase := ACTIVE, in_squeeze := True\<rparr>))).
              undetected_conf idx < 6 / 10)
        \<and> (\<exists>d' a. analyze (Shoulder (shoulder_ready\<lparr>phase := ACTIVE, in_squeeze := True\<rparr>))
                      (shoulders_apart 75) undetected_conf 131 = Inr (d', a)
              \<and> form_score a = 0 \<and> confidence a = 0 \<and> \<not> is_proper_position a
              \<and> result_rep_count a = result_rep_count a0
              \<and> counters d' = [0] \<and> hysteresis_flags d' = [PBool True])"
proof -
  let ?d = "Shoulder (shoulder_ready\<lparr>phase := ACTIVE, in_squeeze := True\<rparr>)"
  have act: "snd (update_phase shoulder_ready 130) = ACTIVE"
    by (rule active_default) (simp_all add: shoulder_ready_def shoulder_init_def)
  have cf: "check_confidence shoulder_ready detected_conf shoulder_required_keypoints"
    by (rule detected_conf_passes) (simp add: shoulder_ready_def shoulder_init_def)
  have "\<exists>a. shoulder_analyze shoulder_ready (shoulders_apart 75) detected_conf 130
              = Inr (shoulder_ready\<lparr>phase := ACTIVE, in_squeeze := True\<rparr>, a)
            \<and> form_score a = 90 \<and> result_rep_count a = rep_count shoulder_ready"
    by (rule shoulder_enter [OF act cf, of 100])
       (simp_all add: shoulder_ready_def shoulder_init_def shoulder_distance_of_def
          shoulders_apart_def)
  then obtain a0 where h1:
    "analyze (Shoulder shoulder_ready) (shoulders_apart 75) detected_conf 130 = Inr (?d, a0)"
    by auto
  have h2: "threshold_of ?d = 6 / 10"
    by (simp add: shoulder_ready_def shoulder_init_def)
  have h3: "\<exists>idx \<in> set (required_keypoints ?d). undetected_conf idx < 6 / 10"
    by (auto simp: shoulder_required_keypoints_def undetected_conf_def)
  have c: "counters ?d = [0]" "hysteresis_flags ?d = [PBool True]"
    by (simp_all add: shoulder_ready_def shoulder_init_def)
  from low_confidence_degraded [OF h1 h2 h3, of "shoulders_apart 75" 131] h1 h2 h3 c
  show ?thesis by (intro exI [of _ a0]) auto
qed

section \<open>Shoulder squeezes: edge-triggered counting\<close>

text \<open>
  C3. For the shoulder-squeeze detector in the Active phase with an established baseline
  (not None and not 0) and all required confidences passing: a frame with
  \<open>squeeze_percent > 20\<close> while \<open>in_squeeze\<close> is false sets \<open>in_squeeze\<close> with form
  score 90 and leaves \<open>rep_count\<close> alone; a frame with \<open>squeeze_percent \<le> 20\<close> while
  \<open>in_squeeze\<close> is true increments \<open>rep_count\<close> by exactly one and clears \<open>in_squeeze\<close>.
  In particular, with baseline 100 and the Active-phase distances 100, 100, 75, 75, 100,
  \<open>in_squeeze\<close> becomes true at the third frame (the first distance at most 80) and
  \<open>rep_count\<close> increments exactly once, at the fifth frame.
\<close>

theorem shoulder_squeeze_hysteresis:
  assumes act: "snd (update_phase s t) = ACTIVE"
    and cf: "check_confidence s conf shoulder_required_keypoints"
    and base: "baseline_distance s = Some b" and nz: "b \<noteq> 0"
  shows "(20 < (b - shoulder_distance_of kp) / b * 100 \<and> \<not> in_squeeze s \<longrightarrow>
            (\<exists>a. shoulder_analyze s kp conf t
                    = Inr (s\<lparr>phase := ACTIVE, in_squeeze := True\<rparr>, a)
                  \<and> form_score a = 90 \<and> result_rep_count a = rep_count s))
       \<and> ((b - shoulder_distance_of kp) / b * 100 \<le> 20 \<and> in_squeeze s \<longrightarrow>
            (\<exists>a. shoulder_analyze s kp conf t
                    = Inr (s\<lparr>phase := ACTIVE, rep_count := rep_count s + 1,
                             in_squeeze := False\<rparr>, a)
                  \<and> result_rep_count a = rep_count s + 1))
       \<and> (b = 100 \<and> \<not> in_squeeze s
            \<and> (\<forall>t' \<in> {t1, t2, t3, t4, t5}. snd (update_phase s t') = ACTIVE)
            \<and> (\<forall>c \<in> {c1, c2, c3, c4, c5}. check_confidence s c shoulder_required_keypoints)
            \<and> map shoulder_distance_of [k1, k2, k3, k4, k5] = [100, 100, 75, 75, 100] \<longrightarrow>
            (\<exists>rs. shoulder_run s
                     [(k1, c1, t1), (k2, c2, t2), (k3, c3, t3), (k4, c4, t4), (k5, c5, t5)]
                     = Inr rs
                  \<and> map (in_squeeze \<circ> fst) rs = [False, False, True, True, False]
                  \<and> map (rep_count \<circ> fst) rs =
                      [rep_count s, rep_count s, rep_count s, rep_count s, rep_count s + 1]))"
proof (intro conjI impI)
  assume "20 < (b - shoulder_distance_of kp) / b * 100 \<and> \<not> in_squeeze s"
  then show "\<exists>a. shoulder_analyze s kp conf t = Inr (s\<lparr>phase := ACTIVE, in_squeeze := True\<rparr>, a)
                \<and> form_score a = 90 \<and> result_rep_count a = rep_count s"
    using shoulder_enter [OF act cf base nz, of kp] by simp
next
  assume "(b - shoulder_distance_of kp) / b * 100 \<le> 20 \<and> in_squeeze s"
  then show "\<exists>a. shoulder_analyze s kp conf t
                  = Inr (s\<lparr>phase := ACTIVE, rep_count := rep_count s + 1, in_squeeze := False\<rparr>, a)
                \<and> result_rep_count a = rep_count s + 1"
    using shoulder_release [OF act cf base nz, of kp] by auto
next
  assume h: "b = 100 \<and> \<not> in_squeeze s
            \<and> (\<forall>t' \<in> {t1, t2, t3, t4, t5}. snd (update_phase s t') = ACTIVE)
            \<and> (\<forall>c \<in> {c1, c2, c3, c4, c5}. check_confidence s c shoulder_required_keypoints)
            \<and> map shoulder_distance_of [k1, k2, k3, k4, k5] = [100, 100, 75, 75, 100]"
  have b100: "baseline_distance s = Some 100" using base h by simp
  show "\<exists>rs. shoulder_run s
               [(k1, c1, t1), (k2, c2, t2), (k3, c3, t3), (k4, c4, t4), (k5, c5, t5)] = Inr rs
            \<and> map (in_squeeze \<circ> fst) rs = [False, False, True, True, False]
            \<and> map (rep_count \<circ> fst) rs =
                [rep_count s, rep_count s, rep_count s, rep_count s, rep_count s + 1]"
    by (rule shoulder_sequence [OF b100]) (use h in blast)+
qed

text \<open>
  A run of C3 from the state \<open>shoulder_ready\<close> (baseline 100): entering a squeeze at
  distance 75, releasing at distance 100, and the five-frame sequence.
\<close>

theorem shoulder_squeeze_hysteresis_witness:
  "snd (update_phase shoulder_ready 130) = ACTIVE
   \<and> check_confidence shoulder_ready detected_conf shoulder_required_keypoints
   \<and> baseline_distance shoulder_ready = Some 100
   \<and> 20 < (100 - shoulder_distance_of (shoulders_apart 75)) / 100 * 100
   \<and> \<not> in_squeeze shoulder_ready
   \<and> (\<exists>a. shoulder_analyze shoulder_ready (shoulders_apart 75) detected_conf 130
             = Inr (shoulder_ready\<lparr>phase := ACTIVE, in_squeeze := True\<rparr>, a)
           \<and> form_score a = 90 \<and> result_rep_count a = 0)
   \<and> (100 - shoulder_distance_of (shoulders_apart 100)) / 100 * 100 \<le> 20
   \<and> in_squeeze (shoulder_ready\<lparr>in_squeeze := True\<rparr>)
   \<and> (\<exists>a. shoulder_analyze (shoulder_ready\<lparr>in_squeeze := True\<rparr>) (shoulders_apart 100)
               detected_conf 130
             = Inr (shoulder_ready\<lparr>phase := ACTIVE, rep_count := 1, in_squeeze := False\<rparr>, a)
           \<and> result_rep_count a = 1)
   \<and> map shoulder_distance_of
         [shoulders_apart 100, shoulders_apart 100, shoulders_apart 75, shoulders_apart 75,
          shoulders_apart 100] = [100, 100, 75, 75, 100]
   \<and> (\<exists>rs. shoulder_run shoulder_ready
              [(shoulders_apart 100, detected_conf, 130), (shoulders_apart 100, detected_conf, 131),
               (shoulders_apart 75, detected_conf, 132), (shoulders_apart 75, detected_conf, 133),
               (shoulders_apart 100, detected_conf, 134)] = Inr rs
           \<and> map (in_squeeze \<circ> fst) rs = [False, False, True, True, False]
           \<and> map (rep_count \<circ> fst) rs = [0, 0, 0, 0, 1])"
proof -
  let ?s' = "shoulder_ready\<lparr>in_squeeze := True\<rparr>"
  have dur: "phase_durations shoulder_ready = default_phase_durations"
    and thr: "confidence_threshold shoulder_ready = 6 / 10"
    and base: "baseline_distance shoulder_ready = Some 100"
    and flag: "\<not> in_squeeze shoulder_ready"
    and rep: "rep_count shoulder_ready = 0"
    by (simp_all add: shoulder_ready_def shoulder_init_def)
  have act: "snd (update_phase shoulder_ready t) = ACTIVE" if "120 \<le> t" "t < 240" for t
    using dur that by (rule active_default)
  have act': "snd (update_phase ?s' 130) = ACTIVE"
    by (rule active_default) (simp_all add: dur)
  have cf: "check_confidence shoulder_ready detected_conf shoulder_required_keypoints"
    using thr by (rule detected_conf_passes)
  have cf': "check_confidence ?s' detected_conf shoulder_required_keypoints"
    by (rule detected_conf_passes) (simp add: thr)
  have base': "baseline_distance ?s' = Some 100" by (simp add: base)
  have nz: "(100::real) \<noteq> 0" by simp
  have d: "shoulder_distance_of (shoulders_apart 75) = 75"
          "shoulder_distance_of (shoulders_apart 100) = 100"
    by (simp_all add: shoulder_distance_of_def shoulders_apart_def)
  note T1 = shoulder_squeeze_hysteresis [OF act [of 130] cf base nz,
      where kp = "shoulders_apart 75"
        and ?t1.0 = 130 and ?t2.0 = 131 and ?t3.0 = 132 and ?t4.0 = 133 and ?t5.0 = 134
        and ?c1.0 = detected_conf and ?c2.0 = detected_conf and ?c3.0 = detected_conf
        and ?c4.0 = detected_conf and ?c5.0 = detected_conf
        and ?k1.0 = "shoulders_apart 100" and ?k2.0 = "shoulders_apart 100"
        and ?k3.0 = "shoulders_apart 75" and ?k4.0 = "shoulders_apart 75"
        and ?k5.0 = "shoulders_apart 100"]
  note T2 = shoulder_squeeze_hysteresis [OF act' cf' base' nz,
      where kp = "shoulders_apart 100"]
  have enter: "\<exists>a. shoulder_analyze shoulder_ready (shoulders_apart 75) detected_conf 130
             = Inr (shoulder_ready\<lparr>phase := ACTIVE, in_squeeze := True\<rparr>, a)
           \<and> form_score a = 90 \<and> result_rep_count a = 0"
    using T1 flag rep by (simp add: d)
  have release: "\<exists>a. shoulder_analyze ?s' (shoulders_apart 100) detected_conf 130
             = Inr (shoulder_ready\<lparr>phase := ACTIVE, rep_count := 1, in_squeeze := False\<rparr>, a)
           \<and> result_rep_count a = 1"
    using T2 rep by (simp add: d)
  have seq: "\<exists>rs. shoulder_run shoulder_ready
              [(shoulders_apart 100, detected_conf, 130), (shoulders_apart 100, detected_conf, 131),
               (shoulders_apart 75, detected_conf, 132), (shoulders_apart 75, detected_conf, 133),
               (shoulders_apart 100, detected_conf, 134)] = Inr rs
           \<and> map (in_squeeze \<circ> fst) rs = [False, False, True, True, False]
           \<and> map (rep_count \<circ> fst) rs = [0, 0, 0, 0, 1]"
    using T1 flag rep cf act [of 130] act [of 131] act [of 132] act [of 133] act [of 134]
    by (simp add: d)
  show ?thesis
    using act [of 130] cf base flag enter release seq by (simp add: d)
qed

section \<open>Neck rotations: debounced counting of left turns\<close>

text \<open>
  C4. For the neck-rotation detector in the Active phase with \<open>elapsed_time < 180\<close>, all
  required confidences passing and threshold 30: a call counts a left rotation exactly
  when the nose offset is below -30 and the tracked direction is not yet 'left', which
  it then becomes; a sample in the dead zone (\<open>|offset| \<le> 30\<close>) clears the tracked
  direction. Feeding the nose offsets 0, -40, -40, 0, -40 therefore raises
  \<open>left_rotations\<close> by two (to 2 on a fresh detector): the intermediate 0 resets the
  debounce and the second excursion counts as new.
\<close>

theorem neck_left_rotation_debounce:
  assumes thr: "rotation_threshold s = 30"
    and act: "\<forall>t \<in> {t1, t2, t3, t4, t5}. snd (update_phase s t) = ACTIVE \<and> t < 180"
    and cf: "\<forall>c \<in> {c1, c2, c3, c4, c5}. check_confidence s c neck_required_keypoints"
  shows "left_rotations (fst (neck_analyze s k1 c1 t1)) =
           (if nose_offset_of k1 < - 30 \<and> rotation_direction s \<noteq> Some ''left''
            then left_rotations s + 1 else left_rotations s)
       \<and> (nose_offset_of k1 < - 30 \<longrightarrow>
            rotation_direction (fst (neck_analyze s k1 c1 t1)) = Some ''left'')
       \<and> (\<bar>nose_offset_of k1\<bar> \<le> 30 \<longrightarrow>
            rotation_direction (fst (neck_analyze s k1 c1 t1)) = None)
       \<and> (map nose_offset_of [k1, k2, k3, k4, k5] = [0, - 40, - 40, 0, - 40] \<longrightarrow>
            map (left_rotations \<circ> fst)
              (neck_run s [(k1, c1, t1), (k2, c2, t2), (k3, c3, t3), (k4, c4, t4), (k5, c5, t5)])
            = [left_rotations s, left_rotations s + 1, left_rotations s + 1,
               left_rotations s + 1, left_rotations s + 2]
          \<and> map (rotation_direction \<circ> fst)
              (neck_run s [(k1, c1, t1), (k2, c2, t2), (k3, c3, t3), (k4, c4, t4), (k5, c5, t5)])
            = [None, Some ''left'', Some ''left'', None, Some ''left''])"
proof -
  have a1: "snd (update_phase s t1) = ACTIVE" and e1: "t1 < 180" using act by simp_all
  have f1: "check_confidence s c1 neck_required_keypoints" using cf by simp
  note step = neck_left_step [OF a1 e1 f1, of k1, unfolded thr]
  have p1: "left_rotations (fst (neck_analyze s k1 c1 t1)) =
           (if nose_offset_of k1 < - 30 \<and> rotation_direction s \<noteq> Some ''left''
            then left_rotations s + 1 else left_rotations s)"
    unfolding step by simp
  have p2: "nose_offset_of k1 < - 30 \<longrightarrow>
            rotation_direction (fst (neck_analyze s k1 c1 t1)) = Some ''left''"
    unfolding step by simp
  have p3: "\<bar>nose_offset_of k1\<bar> \<le> 30 \<longrightarrow>
            rotation_direction (fst (neck_analyze s k1 c1 t1)) = None"
    unfolding step by auto
  have p4: "map nose_offset_of [k1, k2, k3, k4, k5] = [0, - 40, - 40, 0, - 40] \<longrightarrow>
            map (left_rotations \<circ> fst)
              (neck_run s [(k1, c1, t1), (k2, c2, t2), (k3, c3, t3), (k4, c4, t4), (k5, c5, t5)])
            = [left_rotations s, left_rotations s + 1, left_rotations s + 1,
               left_rotations s + 1, left_rotations s + 2]
          \<and> map (rotation_direction \<circ> fst)
              (neck_run s [(k1, c1, t1), (k2, c2, t2), (k3, c3, t3), (k4, c4, t4), (k5, c5, t5)])
            = [None, Some ''left'', Some ''left'', None, Some ''left'']"
    using neck_sequence [OF thr act cf, of k1 k2 k3 k4 k5] by (intro impI)
  show ?thesis using p1 p2 p3 p4 by (intro conjI)
qed

text \<open>A run of C4 on a fresh neck detector: the five frames leave \<open>left_rotations\<close> at 2.\<close>

theorem neck_left_rotation_debounce_witness:
  "rotation_threshold neck_init = 30
   \<and> snd (update_phase neck_init 130) = ACTIVE \<and> snd (update_phase neck_init 131) = ACTIVE
   \<and> snd (update_phase neck_init 132) = ACTIVE \<and> snd (update_phase neck_init 133) = ACTIVE
   \<and> snd (update_phase neck_init 134) = ACTIVE \<and> (134::real) < 180
   \<and> check_confidence neck_init detected_conf neck_required_keypoints
   \<and> map nose_offset_of [nose_at 0, nose_at (- 40), nose_at (- 40), nose_at 0, nose_at (- 40)]
       = [0, - 40, - 40, 0, - 40]
   \<and> map (left_rotations \<circ> fst)
       (neck_run neck_init
          [(nose_at 0, detected_conf, 130), (nose_at (- 40), detected_conf, 131),
           (nose_at (- 40), detected_conf, 132), (nose_at 0, detected_conf, 133),
           (nose_at (- 40), detected_conf, 134)])
       = [0, 1, 1, 1, 2]
   \<and> rotation_direction (fst (neck_analyze neck_init (nose_at 0) detected_conf 130)) = None"
proof -
  have thr: "rotation_threshold neck_init = 30"
    and dur: "phase_durations neck_init = default_phase_durations"
    and ct: "confidence_threshold neck_init = 6 / 10"
    and l0: "left_rotations neck_init = 0"
    by (simp_all add: neck_init_def)
  have act1: "snd (update_phase neck_init t) = ACTIVE" if "120 \<le> t" "t < 240" for t
    using dur that by (rule active_default)
  have act: "\<forall>t \<in> {130, 131, 132, 133, 134}. snd (update_phase neck_init t) = ACTIVE \<and> t < 180"
    using act1 [of 130] act1 [of 131] act1 [of 132] act1 [of 133] act1 [of 134] by simp
  have cf1: "check_confidence neck_init detected_conf neck_required_keypoints"
    using ct by (rule detected_conf_passes)
  have cf: "\<forall>c \<in> {detected_conf, detected_conf, detected_conf, detected_conf, detected_conf}.
              check_confidence neck_init c neck_required_keypoints"
    using cf1 by simp
  have offs: "nose_offset_of (nose_at 0) = 0" "nose_offset_of (nose_at (- 40)) = - 40"
    by (simp_all add: nose_offset_of_def midpoint_x_of_def nose_at_def)
  note T = neck_left_rotation_debounce [OF thr act cf,
      where ?k1.0 = "nose_at 0" and ?k2.0 = "nose_at (- 40)" and ?k3.0 = "nose_at (- 40)"
        and ?k4.0 = "nose_at 0" and ?k5.0 = "nose_at (- 40)"]
  show ?thesis
    using T thr act cf1 l0 by (simp add: offs)
qed

section \<open>Ankle circles: completion of a circle\<close>

text \<open>
  C5. In \<open>_detect_circle_completion\<close>, whenever a quadrant change makes the four most
  recent logged transitions contain all four quadrant values, in any order,
  \<open>circle_count\<close> increments by exactly one and the transition log is cleared. In
  particular, when the transitions 1, 2, 3, 4 are logged in turn onto an empty log (the
  last quadrant being any other than 1), the circle count rises by one (to 1 from 0) and
  the log is empty afterwards.
\<close>

theorem circle_completion_any_order:
  assumes lq: "last_quadrant s = Some l"
  shows "(q \<noteq> l
          \<and> set (drop (length (quadrant_visits s @ [q]) - 4) (quadrant_visits s @ [q]))
              = {1, 2, 3, 4} \<longrightarrow>
          detect_circle_completion s q =
            (s\<lparr>quadrant_visits := [], circle_count := circle_count s + 1\<rparr>, True))
       \<and> (l \<noteq> 1 \<and> quadrant_visits s = [] \<longrightarrow>
            circle_count (detect_run s [1, 2, 3, 4]) = circle_count s + 1
          \<and> quadrant_visits (detect_run s [1, 2, 3, 4]) = [])"
  using detect_complete [OF lq, of q] detect_1234 [OF lq] by blast

text \<open>
  A run of C5: the log holds 4, 3, 1 and the quadrant changes from 1 to 2; and the
  transitions 1, 2, 3, 4 on an empty log after a first sample in quadrant 4.
\<close>

theorem circle_completion_any_order_witness:
  "last_quadrant ankle_three_logged = Some 1
   \<and> (2::int) \<noteq> 1
   \<and> set (drop (length (quadrant_visits ankle_three_logged @ [2]) - 4)
              (quadrant_visits ankle_three_logged @ [2])) = {1, 2, 3, 4}
   \<and> detect_circle_completion ankle_three_logged 2 =
        (ankle_three_logged\<lparr>quadrant_visits := [], circle_count := 1\<rparr>, True)
   \<and> last_quadrant (fst (detect_circle_completion ankle_init 4)) = Some 4
   \<and> quadrant_visits (fst (detect_circle_completion ankle_init 4)) = []
   \<and> circle_count (detect_run (fst (detect_circle_completion ankle_init 4)) [1, 2, 3, 4]) = 1
   \<and> quadrant_visits (detect_run (fst (detect_circle_completion ankle_init 4)) [1, 2, 3, 4]) = []"
proof -
  let ?s4 = "fst (detect_circle_completion ankle_init 4)"
  have a: "last_quadrant ankle_three_logged = Some 1"
    and v: "quadrant_visits ankle_three_logged = [4, 3, 1]"
    and c: "circle_count ankle_three_logged = 0"
    by (simp_all add: ankle_three_logged_def ankle_init_def)
  have all4: "set (drop (length (quadrant_visits ankle_three_logged @ [2]) - 4)
              (quadrant_visits ankle_three_logged @ [2])) = {1, 2, 3, 4::int}"
    by (auto simp: v)
  have b: "last_quadrant ?s4 = Some 4" "quadrant_visits ?s4 = []" "circle_count ?s4 = 0"
    by (simp_all add: detect_circle_completion_def ankle_init_def)
  show ?thesis
    using circle_completion_any_order [OF a, of 2] circle_completion_any_order [OF b(1), of 2]
          a all4 b c
    by simp
qed

section \<open>Ankle circles: the switch to the left ankle\<close>

text \<open>
  The claim C6 as stated fails in the Cooldown phase: a fresh ankle detector called with
  every keypoint visible at an elapsed time of 250 seconds keeps tracking the right
  ankle.
\<close>

theorem ankle_switch_not_after_active:
  "(180::real) < 250
   \<and> active_ankle ankle_init = ''right''
   \<and> check_confidence ankle_init detected_conf ankle_required_keypoints
   \<and> active_ankle (fst (ankle_analyze ankle_init (ankles_at (1, 0)) detected_conf 250))
       \<noteq> ''left''"
  by (simp add: ankle_analyze_def ankle_init_def detected_conf_def ankle_required_keypoints_def
        update_phase_def default_phase_durations_def ankle_phase_logic_def Let_def)

text \<open>
  C6 (amended). For the ankle-circle detector with \<open>active_ankle = 'right'\<close> and an
  \<open>analyze\<close> call with \<open>elapsed_time > 180\<close>: if the call falls in the Active phase and
  all required keypoints pass the confidence gate, then afterwards \<open>active_ankle\<close> is
  'left' and \<open>circle_count\<close>, the transition log and the last-quadrant state are reset
  (the reported \<open>rep_count\<close> is 0); if the call is in another phase or the gate fails,
  \<open>active_ankle\<close> stays 'right' and \<open>circle_count\<close> is unchanged.
\<close>

theorem ankle_switch_in_active_phase:
  assumes right: "active_ankle s = ''right''" and late: "180 < t"
  shows "(snd (update_phase s t) = ACTIVE
            \<and> check_confidence s conf ankle_required_keypoints \<longrightarrow>
            active_ankle (fst (ankle_analyze s kp conf t)) = ''left''
          \<and> circle_count (fst (ankle_analyze s kp conf t)) = 0
          \<and> quadrant_visits (fst (ankle_analyze s kp conf t)) = []
          \<and> last_quadrant (fst (ankle_analyze s kp conf t)) = None
          \<and> result_rep_count (snd (ankle_analyze s kp conf t)) = 0)
       \<and> (snd (update_phase s t) \<noteq> ACTIVE
            \<or> \<not> check_confidence s conf ankle_required_keypoints \<longrightarrow>
            active_ankle (fst (ankle_analyze s kp conf t)) = ''right''
          \<and> circle_count (fst (ankle_analyze s kp conf t)) = circle_count s)"
proof (rule conjI; rule impI)
  assume h: "snd (update_phase s t) = ACTIVE \<and> check_confidence s conf ankle_required_keypoints"
  then have a: "snd (update_phase s t) = ACTIVE"
    and c: "check_confidence s conf ankle_required_keypoints" by simp_all
  show "active_ankle (fst (ankle_analyze s kp conf t)) = ''left''
          \<and> circle_count (fst (ankle_analyze s kp conf t)) = 0
          \<and> quadrant_visits (fst (ankle_analyze s kp conf t)) = []
          \<and> last_quadrant (fst (ankle_analyze s kp conf t)) = None
          \<and> result_rep_count (snd (ankle_analyze s kp conf t)) = 0"
    by (rule ankle_switch_call [OF a late c right])
next
  assume h: "snd (update_phase s t) \<noteq> ACTIVE \<or> \<not> check_confidence s conf ankle_required_keypoints"
  show "active_ankle (fst (ankle_analyze s kp conf t)) = ''right''
          \<and> circle_count (fst (ankle_analyze s kp conf t)) = circle_count s"
    using ankle_no_switch [OF h, of kp] right by simp
qed

text \<open>
  A run of the amended C6 on a fresh detector: the switch at 200 seconds (Active), no
  switch at 250 seconds (Cooldown).
\<close>

theorem ankle_switch_in_active_phase_witness:
  "active_ankle ankle_init = ''right'' \<and> (180::real) < 200 \<and> (180::real) < 250
   \<and> snd (update_phase ankle_init 200) = ACTIVE
   \<and> check_confidence ankle_init detected_conf ankle_required_keypoints
   \<and> active_ankle (fst (ankle_analyze ankle_init (ankles_at (1, 0)) detected_conf 200)) = ''left''
   \<and> circle_count (fst (ankle_analyze ankle_init (ankles_at (1, 0)) detected_conf 200)) = 0
   \<and> quadrant_visits (fst (ankle_analyze ankle_init (ankles_at (1, 0)) detected_conf 200)) = []
   \<and> last_quadrant (fst (ankle_analyze ankle_init (ankles_at (1, 0)) detected_conf 200)) = None
   \<and> snd (update_phase ankle_init 250) \<noteq> ACTIVE
   \<and> active_ankle (fst (ankle_analyze ankle_init (ankles_at (1, 0)) detected_conf 250)) = ''right''"
proof -
  have right: "active_ankle ankle_init = ''right''"
    and dur: "phase_durations ankle_init = default_phase_durations"
    and ct: "confidence_threshold ankle_init = 6 / 10"
    by (simp_all add: ankle_init_def)
  have act: "snd (update_phase ankle_init 200) = ACTIVE"
    using dur by (rule active_default) simp_all
  have cool: "snd (update_phase ankle_init 250) \<noteq> ACTIVE"
    by (simp add: update_phase_def dur phase_loop_default)
  have cf: "check_confidence ankle_init detected_conf ankle_required_keypoints"
    using ct by (rule detected_conf_passes)
  have l1: "(180::real) < 200" and l2: "(180::real) < 250" by simp_all
  show ?thesis
    using ankle_switch_in_active_phase [OF right l1, of detected_conf "ankles_at (1, 0)"]
          ankle_switch_in_active_phase [OF right l2, of detected_conf "ankles_at (1, 0)"]
          right act cool cf
    by simp
qed

section \<open>Idempotence on an unchanged frame\<close>

text \<open>
  Calling \<open>analyze\<close> twice with the same keypoints, confidences and elapsed time never
  counts on the second call, from any state of any detector: all counters and the
  reported \<open>rep_count\<close> are the same after both calls, and \<open>in_squeeze\<close>,
  \<open>rotation_direction\<close> and \<open>active_ankle\<close> do not flip.
\<close>

lemma analyze_twice_counters:
  "\<exists>d1 a1 d2 a2. analyze d kp conf t = Inr (d1, a1)
       \<and> analyze d1 kp conf t = Inr (d2, a2)
       \<and> counters d2 = counters d1
       \<and> result_rep_count a2 = result_rep_count a1
       \<and> (case (d1, d2) of
             (Ankle s1, Ankle s2) \<Rightarrow> active_ankle s2 = active_ankle s1
           | _ \<Rightarrow> hysteresis_flags d2 = hysteresis_flags d1)"
proof (cases d)
  case (Shoulder s)
  obtain s1 a1 s2 a2 where
    "shoulder_analyze s kp conf t = Inr (s1, a1)" "shoulder_analyze s1 kp conf t = Inr (s2, a2)"
    "rep_count s2 = rep_count s1" "in_squeeze s2 = in_squeeze s1"
    "result_rep_count a2 = result_rep_count a1"
    using shoulder_idem [of s kp conf t] by blast
  then show ?thesis using Shoulder by simp
next
  case (Neck s)
  obtain s1 a1 where r1: "neck_analyze s kp conf t = (s1, a1)" by (cases "neck_analyze s kp conf t")
  obtain s2 a2 where r2: "neck_analyze s1 kp conf t = (s2, a2)" by (cases "neck_analyze s1 kp conf t")
  have keep: "left_rotations s2 = left_rotations s1" "right_rotations s2 = right_rotations s1"
    "rotation_direction s2 = rotation_direction s1" "rep_count s2 = rep_count s1"
    using neck_idem [of s kp conf t] by (simp_all add: r1 r2)
  have "result_rep_count a2 = result_rep_count a1"
    using neck_reported [OF r1] neck_reported [OF r2] keep by simp
  then show ?thesis using Neck keep by (simp add: r1 r2)
next
  case (Ankle s)
  obtain s1 a1 where r1: "ankle_analyze s kp conf t = (s1, a1)" by (cases "ankle_analyze s kp conf t")
  obtain s2 a2 where r2: "ankle_analyze s1 kp conf t = (s2, a2)" by (cases "ankle_analyze s1 kp conf t")
  have keep: "circle_count s2 = circle_count s1" "active_ankle s2 = active_ankle s1"
    "rep_count s2 = rep_count s1"
    using ankle_idem [of s kp conf t] by (simp_all add: r1 r2)
  have "result_rep_count a2 = result_rep_count a1"
    using ankle_reported [OF r1] ankle_reported [OF r2] keep by simp
  then show ?thesis using Ankle keep by (simp add: r1 r2)
qed

text \<open>
  C7 (the code departs from it). Calling \<open>analyze\<close> twice with an identical frame and
  elapsed time must not increment a counter nor flip any hysteresis state. The counters
  obey this, but the ankle detector's \<open>last_quadrant\<close> does not:
  \<open>_detect_circle_completion\<close> returns on a completed circle before it assigns
  \<open>last_quadrant\<close>, which its other path does assign. A fresh detector fed Active-phase
  frames in the quadrants 1, 2, 3, 4, 1 completes a circle on the fifth frame with
  \<open>last_quadrant\<close> still 4; the same frame again moves \<open>last_quadrant\<close> to 1 and logs
  the transition 1. The repeated frame changes a later count: three further frames in
  the quadrants 2, 3, 4 then complete a second circle, which they do not without it.
\<close>

theorem repeated_frame_moves_last_quadrant:
  "circle_count (ankle_run ankle_init one_circle_frames) = 1
   \<and> quadrant_visits (ankle_run ankle_init one_circle_frames) = []
   \<and> last_quadrant (ankle_run ankle_init one_circle_frames) = Some 4
   \<and> circle_count (fst (ankle_analyze (ankle_run ankle_init one_circle_frames)
                           (ankles_at (1, 0)) detected_conf 134)) = 1
   \<and> quadrant_visits (fst (ankle_analyze (ankle_run ankle_init one_circle_frames)
                           (ankles_at (1, 0)) detected_conf 134)) = [1]
   \<and> last_quadrant (fst (ankle_analyze (ankle_run ankle_init one_circle_frames)
                           (ankles_at (1, 0)) detected_conf 134)) = Some 1
   \<and> hysteresis_flags (Ankle (fst (ankle_analyze (ankle_run ankle_init one_circle_frames)
                           (ankles_at (1, 0)) detected_conf 134)))
       \<noteq> hysteresis_flags (Ankle (ankle_run ankle_init one_circle_frames))
   \<and> circle_count (ankle_run (ankle_run ankle_init one_circle_frames) three_quadrant_frames) = 1
   \<and> circle_count (ankle_run (fst (ankle_analyze (ankle_run ankle_init one_circle_frames)
                           (ankles_at (1, 0)) detected_conf 134)) three_quadrant_frames) = 2"
proof -
  define s1 where "s1 = fst (ankle_analyze ankle_init (ankles_at (1, 0)) detected_conf 130)"
  define s2 where "s2 = fst (ankle_analyze s1 (ankles_at (0, 1)) detected_conf 131)"
  define s3 where "s3 = fst (ankle_analyze s2 (ankles_at (- 1, 0)) detected_conf 132)"
  define s4 where "s4 = fst (ankle_analyze s3 (ankles_at (0, - 1)) detected_conf 133)"
  define s5 where "s5 = fst (ankle_analyze s4 (ankles_at (1, 0)) detected_conf 134)"
  define s6 where "s6 = fst (ankle_analyze s5 (ankles_at (1, 0)) detected_conf 134)"
  define u1 where "u1 = fst (ankle_analyze s5 (ankles_at (0, 1)) detected_conf 135)"
  define u2 where "u2 = fst (ankle_analyze u1 (ankles_at (- 1, 0)) detected_conf 136)"
  define u3 where "u3 = fst (ankle_analyze u2 (ankles_at (0, - 1)) detected_conf 137)"
  define v1 where "v1 = fst (ankle_analyze s6 (ankles_at (0, 1)) detected_conf 135)"
  define v2 where "v2 = fst (ankle_analyze v1 (ankles_at (- 1, 0)) detected_conf 136)"
  define v3 where "v3 = fst (ankle_analyze v2 (ankles_at (0, - 1)) detected_conf 137)"
  let ?inv = "\<lambda>s lq qv cc. phase_durations s = default_phase_durations
      \<and> confidence_threshold s = 6 / 10 \<and> active_ankle s = ''right''
      \<and> last_quadrant s = lq \<and> quadrant_visits s = qv \<and> circle_count s = cc"
  have k: "ankles_at p RIGHT_ANKLE = p" "ankles_at p RIGHT_KNEE = (0, 0)" for p
    by (simp_all add: ankles_at_def)
  have i0: "?inv ankle_init None [] 0" by (simp add: ankle_init_def)
  have i1: "?inv s1 (Some 1) [] 0"
    unfolding s1_def
    using ankle_active_step [of ankle_init 130 "ankles_at (1, 0)" 1] i0
    by (simp add: k detect_circle_completion_def Let_def)
  have i2: "?inv s2 (Some 2) [2] 0"
    unfolding s2_def
    using ankle_active_step [of s1 131 "ankles_at (0, 1)" 2] i1
    by (simp add: k detect_circle_completion_def Let_def)
  have i3: "?inv s3 (Some 3) [2, 3] 0"
    unfolding s3_def
    using ankle_active_step [of s2 132 "ankles_at (- 1, 0)" 3] i2
    by (simp add: k detect_circle_completion_def Let_def)
  have i4: "?inv s4 (Some 4) [2, 3, 4] 0"
    unfolding s4_def
    using ankle_active_step [of s3 133 "ankles_at (0, - 1)" 4] i3
    by (simp add: k detect_circle_completion_def Let_def)
  have i5: "?inv s5 (Some 4) [] 1"
    unfolding s5_def
    using ankle_active_step [of s4 134 "ankles_at (1, 0)" 1] i4
    by (simp add: k detect_circle_completion_def Let_def)
  have i6: "?inv s6 (Some 1) [1] 1"
    unfolding s6_def
    using ankle_active_step [of s5 134 "ankles_at (1, 0)" 1] i5
    by (simp add: k detect_circle_completion_def Let_def)
  have j1: "?inv u1 (Some 2) [2] 1"
    unfolding u1_def
    using ankle_active_step [of s5 135 "ankles_at (0, 1)" 2] i5
    by (simp add: k detect_circle_completion_def Let_def)
  have j2: "?inv u2 (Some 3) [2, 3] 1"
    unfolding u2_def
    using ankle_active_step [of u1 136 "ankles_at (- 1, 0)" 3] j1
    by (simp add: k detect_circle_completion_def Let_def)
  have j3: "?inv u3 (Some 4) [2, 3, 4] 1"
    unfolding u3_def
    using ankle_active_step [of u2 137 "ankles_at (0, - 1)" 4] j2
    by (simp add: k detect_circle_completion_def Let_def)
  have l1: "?inv v1 (Some 2) [1, 2] 1"
    unfolding v1_def
    using ankle_active_step [of s6 135 "ankles_at (0, 1)" 2] i6
    by (simp add: k detect_circle_completion_def Let_def)
  have l2: "?inv v2 (Some 3) [1, 2, 3] 1"
    unfolding v2_def
    using ankle_active_step [of v1 136 "ankles_at (- 1, 0)" 3] l1
    by (simp add: k detect_circle_completion_def Let_def)
  have l3: "circle_count v3 = 2"
    unfolding v3_def
    using ankle_active_step [of v2 137 "ankles_at (0, - 1)" 4] l2
    by (simp add: k detect_circle_completion_def Let_def)
  have r5: "ankle_run ankle_init one_circle_frames = s5"
    by (simp add: one_circle_frames_def s1_def s2_def s3_def s4_def s5_def)
  have ru: "ankle_run s5 three_quadrant_frames = u3"
    by (simp add: three_quadrant_frames_def u1_def u2_def u3_def)
  have rv: "ankle_run s6 three_quadrant_frames = v3"
    by (simp add: three_quadrant_frames_def v1_def v2_def v3_def)
  show ?thesis
    unfolding r5 s6_def [symmetric] ru rv
    using i5 i6 j3 l3 by simp
qed

section \<open>Range of the form score\<close>

text \<open>
  C8. For every detector variant, every frame (keypoints and confidences) and every
  elapsed time, \<open>analyze\<close> returns an analysis, and its form score lies in [0, 100].
\<close>

theorem form_score_range:
  "\<exists>d' a. analyze d kp conf t = Inr (d', a) \<and> 0 \<le> form_score a \<and> form_score a \<le> 100"
proof (cases d)
  case (Shoulder s)
  then show ?thesis using shoulder_form_score [of s kp conf t] by auto
next
  case (Neck s)
  then show ?thesis using neck_form_score [of s kp conf t]
    by (cases "neck_analyze s kp conf t") auto
next
  case (Ankle s)
  then show ?thesis using ankle_form_score [of s kp conf t]
    by (cases "ankle_analyze s kp conf t") auto
qed

theorem form_score_range_witness:
  "\<exists>d' a. analyze (Ankle ankle_init) (ankles_at (1, 0)) detected_conf 250 = Inr (d', a)
       \<and> 0 \<le> form_score a \<and> form_score a \<le> 100"
  by (rule form_score_range)

section \<open>The bearing of the ankle against the knee\<close>

text \<open>
  The claim C9 as stated fails for an ankle straight below the knee in image
  coordinates (\<open>dx = 0\<close>, \<open>dy = -1\<close>): the bearing returned is \<open>-\<pi>/2\<close>, which is
  negative.
\<close>

theorem bearing_not_normalized:
  "\<not> (0 \<le> calculate_ankle_angle (0, - 1) (0, 0)
       \<and> calculate_ankle_angle (0, - 1) (0, 0) < 2 * pi)"
  using pi_gt_zero by (simp add: calculate_ankle_angle_def atan2_def)

text \<open>
  C9 (amended). The bearing primitive \<open>_calculate_ankle_angle\<close> returns
  \<open>atan2(dy, dx)\<close>, a value in \<open>(-\<pi>, \<pi>]\<close>, for every pair of input points; it is the
  quadrant classification \<open>_get_quadrant\<close> that normalizes this value modulo \<open>2\<pi>\<close>
  into \<open>[0, 2\<pi>)\<close> before binning it.
\<close>

theorem bearing_range:
  "- pi < calculate_ankle_angle ankle knee \<and> calculate_ankle_angle ankle knee \<le> pi
   \<and> 0 \<le> normalized_angle (calculate_ankle_angle ankle knee)
   \<and> normalized_angle (calculate_ankle_angle ankle knee) < 2 * pi"
  using atan2_bounds [of "snd ankle - snd knee" "fst ankle - fst knee"]
        py_mod_bounds [of "2 * pi" "calculate_ankle_angle ankle knee"] pi_gt_zero
  by (simp add: calculate_ankle_angle_def normalized_angle_def Let_def)

theorem bearing_range_witness:
  "calculate_ankle_angle (0, - 1) (0, 0) = - (pi / 2)
   \<and> - pi < calculate_ankle_angle (0, - 1) (0, 0) \<and> calculate_ankle_angle (0, - 1) (0, 0) \<le> pi
   \<and> 0 \<le> normalized_angle (calculate_ankle_angle (0, - 1) (0, 0))
   \<and> normalized_angle (calculate_ankle_angle (0, - 1) (0, 0)) < 2 * pi"
proof -
  have "calculate_ankle_angle (0, - 1) (0, 0) = - (pi / 2)"
    by (simp add: calculate_ankle_angle_def atan2_def)
  then show ?thesis using bearing_range [of "(0, - 1)" "(0, 0)"] by simp
qed

section \<open>Shoulder squeezes without a usable baseline\<close>

text \<open>
  C10. For the shoulder-squeeze detector in the Active phase, if \<open>baseline_distance\<close> is
  None or 0, \<open>analyze\<close> skips the squeeze detection: the division by the baseline is not
  evaluated (the call returns a result, not a TypeError or a ZeroDivisionError), no
  counter, flag or baseline changes (only \<open>self.phase\<close> is set), and the analysis is well
  formed: with the confidence gate passed it has the base score 70, no message and the
  diagnostic payload; with the gate failed it is the degraded analysis.
\<close>

theorem shoulder_skips_without_baseline:
  assumes act: "snd (update_phase s t) = ACTIVE"
    and base: "baseline_distance s = None \<or> baseline_distance s = Some 0"
  shows "\<exists>a. shoulder_analyze s kp conf t = Inr (s\<lparr>phase := ACTIVE\<rparr>, a)
           \<and> result_phase a = ACTIVE \<and> result_rep_count a = rep_count s
           \<and> (if check_confidence s conf shoulder_required_keypoints
               then form_score a = 70 \<and> feedback_messages a = [] \<and> is_proper_position a
                    \<and> exercise_specific_data a =
                        [(''shoulder_distance'', PFloat (shoulder_distance_of kp)),
                         (''baseline_distance'',
                            (case baseline_distance s of None \<Rightarrow> PNone | Some b \<Rightarrow> PFloat b)),
                         (''in_squeeze'', PBool (in_squeeze s))]
               else form_score a = 0 \<and> \<not> is_proper_position a)"
  using act base by (rule shoulder_skip_call)

text \<open>
  A run of C10: a fresh detector (no baseline) and a detector whose baseline was taken
  with both shoulders at the same x coordinate (baseline 0), each called at 130 seconds.
\<close>

theorem shoulder_skips_without_baseline_witness:
  "snd (update_phase shoulder_init 130) = ACTIVE
   \<and> baseline_distance shoulder_init = None
   \<and> check_confidence shoulder_init detected_conf shoulder_required_keypoints
   \<and> (\<exists>a. shoulder_analyze shoulder_init (shoulders_apart 75) detected_conf 130
             = Inr (shoulder_init\<lparr>phase := ACTIVE\<rparr>, a)
           \<and> form_score a = 70 \<and> feedback_messages a = [] \<and> result_rep_count a = 0)
   \<and> snd (update_phase (shoulder_init\<lparr>baseline_distance := Some 0\<rparr>) 130) = ACTIVE
   \<and> (\<exists>a. shoulder_analyze (shoulder_init\<lparr>baseline_distance := Some 0\<rparr>) (shoulders_apart 75)
               detected_conf 130
             = Inr (shoulder_init\<lparr>phase := ACTIVE, baseline_distance := Some 0\<rparr>, a)
           \<and> form_score a = 70 \<and> feedback_messages a = [] \<and> result_rep_count a = 0)"
proof -
  let ?z = "shoulder_init\<lparr>baseline_distance := Some 0\<rparr>"
  have dur: "phase_durations shoulder_init = default_phase_durations"
    and ct: "confidence_threshold shoulder_init = 6 / 10"
    and none: "baseline_distance shoulder_init = None"
    and rep: "rep_count shoulder_init = 0"
    by (simp_all add: shoulder_init_def)
  have act: "snd (update_phase shoulder_init 130) = ACTIVE"
    using dur by (rule active_default) simp_all
  have actz: "snd (update_phase ?z 130) = ACTIVE"
    by (rule active_default) (simp_all add: dur)
  have cf: "check_confidence shoulder_init detected_conf shoulder_required_keypoints"
    using ct by (rule detected_conf_passes)
  have cfz: "check_confidence ?z detected_conf shoulder_required_keypoints"
    by (rule detected_conf_passes) (simp add: ct)
  have b1: "baseline_distance shoulder_init = None \<or> baseline_distance shoulder_init = Some 0"
    using none by simp
  have b2: "baseline_distance ?z = None \<or> baseline_distance ?z = Some 0" by simp
  have r1: "\<exists>a. shoulder_analyze shoulder_init (shoulders_apart 75) detected_conf 130
             = Inr (shoulder_init\<lparr>phase := ACTIVE\<rparr>, a)
           \<and> form_score a = 70 \<and> feedback_messages a = [] \<and> result_rep_count a = 0"
    using shoulder_skips_without_baseline [OF act b1, of "shoulders_apart 75" detected_conf]
          cf rep by auto
  have r2: "\<exists>a. shoulder_analyze ?z (shoulders_apart 75) detected_conf 130
             = Inr (shoulder_init\<lparr>phase := ACTIVE, baseline_distance := Some 0\<rparr>, a)
           \<and> form_score a = 70 \<and> feedback_messages a = [] \<and> result_rep_count a = 0"
    using shoulder_skips_without_baseline [OF actz b2, of "shoulders_apart 75" detected_conf]
          cfz rep by auto
  show ?thesis using act none cf r1 actz r2 by (intro conjI)
qed

end
